theory Spec2Isabelle
  imports Complex_Main "HOL-Library.Sublist"
begin

text \<open>
  A shallow embedding of the arbitration core of open-machina: the judge model policy, the
  credential resolver and the judge runtime resolver, the chat-message hook with its
  session queues (\<^verbatim>\<open>packages/open-machina-plugin/src/index.ts\<close>), and the decision
  protocol (\<^verbatim>\<open>packages/open-machina-shared/src/autonomy.ts\<close>). Asynchronous functions are
  modelled by their results: a rejected promise is an error value, \<^verbatim>\<open>await\<close> is
  sequencing, and an error thrown in the body of an asynchronous function, also by a
  function of the host that is called there, rejects its promise. What the code reads
  from the JavaScript runtime, the environment, the file system, the network and the host
  is a parameter; what it writes is a field of an explicit state.
\<close>

section \<open>Judge model policy (plugin, index.ts)\<close>

text \<open>
  \<^verbatim>\<open>type ModelRef = { providerID: string; modelID: string }\<close> and
  \<^verbatim>\<open>type JudgePolicy = { allow: ModelRef[]; deny: ModelRef[]; fallback: ModelRef[] }\<close>.
\<close>

record ModelRef =
  providerID :: string
  modelID :: string

record JudgePolicy =
  allow :: "ModelRef list"
  deny :: "ModelRef list"
  fallback :: "ModelRef list"

text \<open>The template \<^verbatim>\<open>`${item.providerID}/${item.modelID}`\<close>, the identity key of a reference.\<close>

definition ref_key :: "ModelRef \<Rightarrow> string" where
  "ref_key item = providerID item @ ''/'' @ modelID item"

text \<open>
  \<^verbatim>\<open>dedupeModelRefs\<close>: the \<^verbatim>\<open>for\<close> loop over \<^verbatim>\<open>items\<close> with its two
  accumulators, the set \<^verbatim>\<open>keys\<close> and the array \<^verbatim>\<open>out\<close>.
\<close>

fun dedupe_loop :: "string set \<Rightarrow> ModelRef list \<Rightarrow> ModelRef list \<Rightarrow> ModelRef list" where
  "dedupe_loop keys out [] = out"
| "dedupe_loop keys out (item # items) =
     (let key = ref_key item
      in if key \<in> keys then dedupe_loop keys out items
         else dedupe_loop (insert key keys) (out @ [item]) items)"

definition dedupeModelRefs :: "ModelRef list \<Rightarrow> ModelRef list" where
  "dedupeModelRefs items = dedupe_loop {} [] items"

text \<open>
  The specification's wording of the same list, for comparison with the loop: every
  reference is kept at its first occurrence and later references with the same identity
  key are removed.
\<close>

fun first_seen :: "ModelRef list \<Rightarrow> ModelRef list" where
  "first_seen [] = []"
| "first_seen (x # xs) = x # first_seen (filter (\<lambda>y. ref_key y \<noteq> ref_key x) xs)"

text \<open>\<^verbatim>\<open>isPolicyAllowed\<close>; \<^verbatim>\<open>Array.prototype.some\<close> is \<^const>\<open>list_ex\<close>.\<close>

definition isPolicyAllowed :: "JudgePolicy \<Rightarrow> ModelRef \<Rightarrow> bool" where
  "isPolicyAllowed policy target =
     (let key = ref_key target;
          denied = list_ex (\<lambda>item. ref_key item = key) (deny policy)
      in if denied then False
         else if length (allow policy) = 0 then True
         else list_ex (\<lambda>item. ref_key item = key) (allow policy))"

text \<open>
  The candidate loop of \<^verbatim>\<open>resolveJudgeRuntime\<close> (index.ts 550-565). The catalog check
  \<^verbatim>\<open>validateJudgeTarget\<close> returns a failure text or \<^verbatim>\<open>null\<close>; the loop tests the
  result for truthiness, so an empty text would count as no failure.
\<close>

definition truthy_text :: "string option \<Rightarrow> bool" where
  "truthy_text r = (case r of None \<Rightarrow> False | Some s \<Rightarrow> s \<noteq> [])"

fun select_loop ::
  "JudgePolicy \<Rightarrow> (ModelRef \<Rightarrow> string option) \<Rightarrow> string list \<Rightarrow> ModelRef list
     \<Rightarrow> ModelRef option \<times> string list" where
  "select_loop policy validate skips [] = (None, skips)"
| "select_loop policy validate skips (candidate # rest) =
     (if \<not> isPolicyAllowed policy candidate
      then select_loop policy validate
             (skips @ [''POLICY_DENY:'' @ providerID candidate @ ''/'' @ modelID candidate]) rest
      else let modelValidation = validate candidate
           in if truthy_text modelValidation
              then select_loop policy validate (skips @ [the modelValidation]) rest
              else (Some candidate, skips))"

definition select_candidate ::
  "JudgePolicy \<Rightarrow> (ModelRef \<Rightarrow> string option) \<Rightarrow> ModelRef \<Rightarrow> ModelRef option \<times> string list" where
  "select_candidate policy validate base =
     select_loop policy validate [] (dedupeModelRefs (base # fallback policy))"

section \<open>JavaScript values and strings\<close>

text \<open>
  Values that reach the code as \<^verbatim>\<open>unknown\<close>: the result of \<^verbatim>\<open>JSON.parse\<close>, a record of
  the auth store, a response of the host. A number is an IEEE double; every finite double
  is a rational, comparison, \<^verbatim>\<open>Math.floor\<close>, \<^verbatim>\<open>Math.min\<close> and \<^verbatim>\<open>Math.max\<close> are
  exact on doubles, and \<^verbatim>\<open>JSON.parse\<close> yields no NaN, so a number is a rational or one
  of the two infinities (\<^verbatim>\<open>JSON.parse("1e999")\<close>). An object is the list of its own
  properties, each key once.
\<close>

datatype jsnum = Finite rat | PosInfinity | NegInfinity

datatype jsval =
    JUndefined
  | JNull
  | JBool bool
  | JNum jsnum
  | JStr string
  | JArr "jsval list"
  | JObj "(string \<times> jsval) list"

text \<open>\<^verbatim>\<open>isRecord\<close>: \<^verbatim>\<open>typeof value === "object" && value !== null\<close>, true of arrays too.\<close>

fun isRecord :: "jsval \<Rightarrow> bool" where
  "isRecord (JArr xs) = True"
| "isRecord (JObj kvs) = True"
| "isRecord v = False"

text \<open>
  An array index as a property key: the canonical decimal text of a natural number.
\<close>

definition is_digit :: "char \<Rightarrow> bool" where
  "is_digit c = (48 \<le> (of_char c :: nat) \<and> (of_char c :: nat) \<le> 57)"

definition array_index :: "string \<Rightarrow> nat option" where
  "array_index k =
     (if k \<noteq> [] \<and> list_all is_digit k \<and> (k = ''0'' \<or> hd k \<noteq> CHR ''0'')
      then Some (foldl (\<lambda>n c. 10 * n + (of_char c - 48)) 0 k) else None)"

text \<open>
  Reading a property, \<^verbatim>\<open>value.key\<close> or \<^verbatim>\<open>value[key]\<close>, of a value that passed
  \<^verbatim>\<open>isRecord\<close>: an own property of an object, an element or the length of an array,
  \<^verbatim>\<open>undefined\<close> otherwise. Properties inherited from a prototype are functions or the
  prototype object, which every test of this code treats as it treats \<^verbatim>\<open>undefined\<close>;
  they read as \<^verbatim>\<open>undefined\<close> here. The code reads no property of a value that is not a
  record.
\<close>

fun get_prop :: "jsval \<Rightarrow> string \<Rightarrow> jsval" where
  "get_prop (JObj kvs) k = (case map_of kvs k of Some v \<Rightarrow> v | None \<Rightarrow> JUndefined)"
| "get_prop (JArr xs) k =
     (case array_index k of
        Some i \<Rightarrow> if i < length xs then xs ! i else JUndefined
      | None \<Rightarrow> if k = ''length'' then JNum (Finite (of_nat (length xs))) else JUndefined)"
| "get_prop v k = JUndefined"

text \<open>
  \<^verbatim>\<open>String.prototype.trim\<close> on the ASCII white space and line terminators (tab, line
  feed, vertical tab, form feed, carriage return, space); a \<^typ>\<open>string\<close> is a list of
  bytes, the Unicode spaces beyond ASCII are not modelled.
\<close>

definition is_space :: "char \<Rightarrow> bool" where
  "is_space c = (c \<in> set [CHR 0x09, CHR 0x0A, CHR 0x0B, CHR 0x0C, CHR 0x0D, CHR '' ''])"

definition trim :: "string \<Rightarrow> string" where
  "trim s = rev (dropWhile is_space (rev (dropWhile is_space s)))"

text \<open>\<^verbatim>\<open>Array.prototype.join\<close> on strings.\<close>

fun join_with :: "string \<Rightarrow> string list \<Rightarrow> string" where
  "join_with sep [] = []"
| "join_with sep [x] = x"
| "join_with sep (x # y # zs) = x @ sep @ join_with sep (y # zs)"

text \<open>A thrown \<^verbatim>\<open>Error\<close> with its message.\<close>

datatype error = Error string

section \<open>Decision protocol (shared package, autonomy.ts)\<close>

datatype OrchestrationAction = Abort | Defer | Parallel | Continue

datatype Priority = Critical | High | Medium | Low

datatype Lane = Foreground | Background

record ParallelPlan =
  lane :: Lane
  maxConcurrency :: int

record OrchestrationDecision =
  action :: OrchestrationAction
  confidence :: jsnum
  reason :: string
  priority :: Priority
  deferUntil :: "string option"
  parallelPlan :: "ParallelPlan option"

definition DECISION_SCHEMA :: string where
  "DECISION_SCHEMA = join_with [CHR 0x0A]
     [''Return strict JSON only with keys:'',
      ''action: abort|defer|parallel|continue'',
      ''confidence: number between 0 and 1'',
      ''reason: concise rationale'',
      ''priority: critical|high|medium|low'',
      ''deferUntil: optional ISO timestamp'',
      ''parallelPlan: optional { lane: foreground|background, maxConcurrency: number }'']"

text \<open>
  \<^verbatim>\<open>createDecisionPrompt\<close>; \<^verbatim>\<open>JSON.stringify(input, null, 2)\<close> is the runtime's and is
  the parameter \<open>stringify\<close>.
\<close>

definition createDecisionPrompt :: "('i \<Rightarrow> string) \<Rightarrow> 'i \<Rightarrow> string" where
  "createDecisionPrompt stringify input = join_with [CHR 0x0A]
     [''You are open-machina orchestration judge.'',
      ''Decide interruption strategy for current active work.'',
      ''Do not use static rules. Make contextual judgement.'',
      ''Primary objective: maximize user goal completion while preventing direct harm.'',
      DECISION_SCHEMA,
      [],
      ''Input JSON:'',
      stringify input]"

definition REPAIR_PROMPT :: string where
  "REPAIR_PROMPT = join_with [CHR 0x0A]
     [''Your previous answer was invalid.'',
      DECISION_SCHEMA,
      ''Return one valid JSON object now.'']"

text \<open>
  The type guards \<^verbatim>\<open>isAction\<close> and \<^verbatim>\<open>isPriority\<close>, with the enumerated value they
  let through.
\<close>

fun read_action :: "jsval \<Rightarrow> OrchestrationAction option" where
  "read_action (JStr s) =
     (if s = ''abort'' then Some Abort
      else if s = ''defer'' then Some Defer
      else if s = ''parallel'' then Some Parallel
      else if s = ''continue'' then Some Continue
      else None)"
| "read_action v = None"

definition isAction :: "jsval \<Rightarrow> bool" where
  "isAction v = (read_action v \<noteq> None)"

fun read_priority :: "jsval \<Rightarrow> Priority option" where
  "read_priority (JStr s) =
     (if s = ''critical'' then Some Critical
      else if s = ''high'' then Some High
      else if s = ''medium'' then Some Medium
      else if s = ''low'' then Some Low
      else None)"
| "read_priority v = None"

definition isPriority :: "jsval \<Rightarrow> bool" where
  "isPriority v = (read_priority v \<noteq> None)"

text \<open>The comparisons \<^verbatim>\<open>confidence < 0\<close> and \<^verbatim>\<open>confidence > 1\<close> on a number.\<close>

fun num_less :: "jsnum \<Rightarrow> rat \<Rightarrow> bool" where
  "num_less (Finite q) b = (q < b)"
| "num_less PosInfinity b = False"
| "num_less NegInfinity b = True"

fun num_greater :: "jsnum \<Rightarrow> rat \<Rightarrow> bool" where
  "num_greater (Finite q) b = (q > b)"
| "num_greater PosInfinity b = True"
| "num_greater NegInfinity b = False"

text \<open>\<^verbatim>\<open>Math.max(1, Math.min(32, Math.floor(maxConcurrency)))\<close>.\<close>

fun clamp_concurrency :: "jsnum \<Rightarrow> int" where
  "clamp_concurrency (Finite q) = max 1 (min 32 \<lfloor>q\<rfloor>)"
| "clamp_concurrency PosInfinity = 32"
| "clamp_concurrency NegInfinity = 1"

definition parseParallelPlan :: "jsval \<Rightarrow> ParallelPlan option" where
  "parseParallelPlan input =
     (if \<not> isRecord input then None
      else case (get_prop input ''lane'', get_prop input ''maxConcurrency'') of
        (JStr l, JNum n) \<Rightarrow>
          if l \<noteq> ''foreground'' \<and> l \<noteq> ''background'' then None
          else Some \<lparr>lane = (if l = ''foreground'' then Foreground else Background),
                      maxConcurrency = clamp_concurrency n\<rparr>
      | _ \<Rightarrow> None)"

text \<open>
  The regular expression \<^verbatim>\<open>/\{[\s\S]*\}/\<close> of \<^verbatim>\<open>raw.match\<close>: the text from the first
  opening brace to the last closing brace after it, when there is one.
\<close>

definition brace_match :: "string \<Rightarrow> string option" where
  "brace_match raw =
     (let s = dropWhile (\<lambda>c. c \<noteq> CHR ''{'') raw
      in if s = [] then None
         else let r = dropWhile (\<lambda>c. c \<noteq> CHR ''}'') (rev (tl s))
              in if r = [] then None else Some (CHR ''{'' # rev r))"

text \<open>
  \<^verbatim>\<open>parseDecision\<close>, lines 89-102: \<^verbatim>\<open>JSON.parse\<close> is the runtime's and is the parameter
  \<open>json_parse\<close>, \<^const>\<open>None\<close> where it throws.
\<close>

definition parse_payload :: "(string \<Rightarrow> jsval option) \<Rightarrow> string \<Rightarrow> jsval option" where
  "parse_payload json_parse raw =
     (case json_parse raw of
        Some parsed \<Rightarrow> Some parsed
      | None \<Rightarrow> (case brace_match raw of None \<Rightarrow> None | Some m \<Rightarrow> json_parse m))"

text \<open>\<^verbatim>\<open>parseDecision\<close>, lines 104-129, on the parsed value.\<close>

definition decision_of :: "jsval \<Rightarrow> OrchestrationDecision option" where
  "decision_of parsed =
     (if \<not> isRecord parsed then None
      else let action' = get_prop parsed ''action'';
               confidence' = get_prop parsed ''confidence'';
               reason' = get_prop parsed ''reason'';
               priority' = get_prop parsed ''priority''
           in case (read_action action', confidence') of
                (Some a, JNum c) \<Rightarrow>
                  if num_less c 0 \<or> num_greater c 1 then None
                  else (case (reason', read_priority priority') of
                          (JStr r, Some p) \<Rightarrow>
                            if length (trim r) = 0 then None
                            else Some \<lparr>action = a, confidence = c, reason = trim r, priority = p,
                                        deferUntil =
                                          (case get_prop parsed ''deferUntil'' of
                                             JStr d \<Rightarrow> if length d > 0 then Some d else None
                                           | _ \<Rightarrow> None),
                                        parallelPlan =
                                          parseParallelPlan (get_prop parsed ''parallelPlan'')\<rparr>
                        | _ \<Rightarrow> None)
              | _ \<Rightarrow> None)"

definition parseDecision :: "(string \<Rightarrow> jsval option) \<Rightarrow> string \<Rightarrow> OrchestrationDecision option" where
  "parseDecision json_parse raw =
     (case parse_payload json_parse raw of None \<Rightarrow> None | Some parsed \<Rightarrow> decision_of parsed)"

definition shouldInterrupt :: "OrchestrationDecision \<Rightarrow> bool" where
  "shouldInterrupt decision = (action decision = Abort \<or> action decision = Parallel)"

text \<open>
  \<^verbatim>\<open>decideOrchestration\<close>. The judge is a callback
  \<^verbatim>\<open>(prompt: string) => Promise<string>\<close>: it may reject, and it may answer the same
  prompt differently each time, so it is a function on a state \<open>'s\<close> of its own.
\<close>

definition decideOrchestration ::
  "(string \<Rightarrow> jsval option) \<Rightarrow> ('i \<Rightarrow> string) \<Rightarrow> 'i \<Rightarrow> ('s \<Rightarrow> string \<Rightarrow> (error + string) \<times> 's) \<Rightarrow> 's
     \<Rightarrow> (error + OrchestrationDecision) \<times> 's" where
  "decideOrchestration json_parse stringify input judge s =
     (let prompt = createDecisionPrompt stringify input
      in case judge s prompt of
           (Inl e, s1) \<Rightarrow> (Inl e, s1)
         | (Inr first, s1) \<Rightarrow>
             (case parseDecision json_parse first of
                Some parsedFirst \<Rightarrow> (Inr parsedFirst, s1)
              | None \<Rightarrow>
                  (case judge s1 REPAIR_PROMPT of
                     (Inl e, s2) \<Rightarrow> (Inl e, s2)
                   | (Inr repair, s2) \<Rightarrow>
                       (case parseDecision json_parse repair of
                          Some parsedRepair \<Rightarrow> (Inr parsedRepair, s2)
                        | None \<Rightarrow>
                            (Inl (Error ''ORCHESTRATION_DECISION_INVALID: judge response did not return valid decision JSON''),
                             s2)))))"

text \<open>
  A judge that records the prompts it is called with, as the counter \<^verbatim>\<open>calls\<close> of the
  test in autonomy.test.ts counts them.
\<close>

definition recording ::
  "('s \<Rightarrow> string \<Rightarrow> (error + string) \<times> 's) \<Rightarrow> string list \<times> 's \<Rightarrow> string
     \<Rightarrow> (error + string) \<times> (string list \<times> 's)" where
  "recording judge ls prompt =
     (case judge (snd ls) prompt of (r, s') \<Rightarrow> (r, (fst ls @ [prompt], s')))"

text \<open>
  The judge of the test \<^verbatim>\<open>decideOrchestration retries once when first judge output is
  invalid\<close>: its state is the counter \<^verbatim>\<open>calls\<close>.
\<close>

definition abort_json :: string where
  "abort_json = ''{\"action\":\"abort\",\"confidence\":0.88,\"reason\":\"Critical user incident supersedes current medium priority task\",\"priority\":\"critical\"}''"

definition test_judge :: "nat \<Rightarrow> string \<Rightarrow> (error + string) \<times> nat" where
  "test_judge calls prompt = (Inr (if calls + 1 = 1 then ''not-json'' else abort_json), calls + 1)"

text \<open>
  The texts the examples hand to \<^verbatim>\<open>JSON.parse\<close>, with the values it returns for them;
  \<^verbatim>\<open>JSON.parse("not-json")\<close> throws. The examples call it at no other text.
\<close>

definition defer_number_json :: string where
  "defer_number_json = ''{\"action\":\"defer\",\"confidence\":0.5,\"reason\":\"later\",\"priority\":\"low\",\"deferUntil\":5}''"

definition defer_json :: string where
  "defer_json = ''{\"action\":\"defer\",\"confidence\":0.88,\"reason\":\"defer active work\",\"priority\":\"high\",\"deferUntil\":\"2099-01-01T00:00:00.000Z\"}''"

definition example_JSON_parse :: "string \<Rightarrow> jsval option" where
  "example_JSON_parse s =
     (if s = abort_json
      then Some (JObj [(''action'', JStr ''abort''), (''confidence'', JNum (Finite (88 / 100))),
                       (''reason'', JStr ''Critical user incident supersedes current medium priority task''),
                       (''priority'', JStr ''critical'')])
      else if s = defer_number_json
      then Some (JObj [(''action'', JStr ''defer''), (''confidence'', JNum (Finite (1 / 2))),
                       (''reason'', JStr ''later''), (''priority'', JStr ''low''),
                       (''deferUntil'', JNum (Finite 5))])
      else if s = defer_json
      then Some (JObj [(''action'', JStr ''defer''), (''confidence'', JNum (Finite (88 / 100))),
                       (''reason'', JStr ''defer active work''), (''priority'', JStr ''high''),
                       (''deferUntil'', JStr ''2099-01-01T00:00:00.000Z'')])
      else None)"

section \<open>The host of the plugin\<close>

text \<open>
  What the plugin reads from outside itself during one call of a hook or tool. A source
  that is read several times in the call (the catalog, once per candidate) gives the same
  answer each time, except \<^verbatim>\<open>fetch\<close> and the clock, whose answers depend on how many
  reads went before. Each field is one external source of the code:
  \<^item> \<open>env\<close>: \<^verbatim>\<open>process.env\<close>;
  \<^item> \<open>JSON_parse\<close>: \<^verbatim>\<open>JSON.parse\<close>, \<^const>\<open>None\<close> where it throws; \<open>JSON_stringify\<close>:
    \<^verbatim>\<open>JSON.stringify(value, null, 2)\<close>; \<open>number_text\<close>: a number in a template literal;
    \<open>js_in\<close>: the operator \<^verbatim>\<open>key in object\<close> (own and inherited properties);
    \<open>object_keys\<close>: \<^verbatim>\<open>Object.keys\<close>;
  \<^item> \<open>default_auth_path\<close>: the value of
    \<^verbatim>\<open>path.join(os.homedir(), ".config", "opencode", "auth.json")\<close>; \<open>read_json_file\<close>:
    \<^verbatim>\<open>Bun.file(path).json()\<close>, \<^const>\<open>None\<close> where the promise rejects;
  \<^item> \<open>live_auth\<close>: what a call of the accessor handed to \<^verbatim>\<open>auth.loader\<close> does;
  \<^item> \<open>provider_list\<close>: \<^verbatim>\<open>client.provider?.list\<close>, absent, or the promise it returns
    (rejected, or fulfilled with a value); \<open>list_throws\<close>: the error a call of it throws
    before it returns a promise, if it throws;
  \<^item> the three flags say which of \<^verbatim>\<open>client.session.abort\<close>,
    \<^verbatim>\<open>client.session.promptAsync\<close> and \<^verbatim>\<open>client.session.prompt\<close> the host defines;
    \<open>abort_throws\<close>, \<open>promptAsync_throws\<close> and \<open>prompt_throws\<close>: the error a call of
    each throws before it returns a promise, if it throws;
  \<^item> \<open>fetch\<close>: the answer of \<^verbatim>\<open>fetch\<close> to a request, given how many requests went
    before it;
  \<^item> \<open>identity_name\<close>: \<^verbatim>\<open>(await info()).name\<close>, or the error of reading the defaults
    file;
  \<^item> \<open>clock_ms\<close>: the epoch milliseconds of the n-th reading of the clock, and
    \<open>iso_text\<close>: \<^verbatim>\<open>toISOString\<close>.

  The functions of the host are declared to return promises, and the plugin calls each as
  \<^verbatim>\<open>f(...).catch(() => undefined)\<close>: the handler is attached to the promise the call
  returns, so it catches a rejected promise and not an error the call throws before it
  returns (a function that is not \<^verbatim>\<open>async\<close> can do that). Such an error leaves the
  calling function of the plugin, which has no \<^verbatim>\<open>try\<close> around any call of the host.
  The host has both outcomes: \<open>AuthThrows\<close> and the four fields named \<open>_throws\<close> are the
  thrown errors, \<open>AuthRejects\<close> and \<open>ListRejects\<close> the rejected promises.
\<close>

datatype auth_result = AuthThrows error | AuthRejects | AuthReturns jsval

datatype provider_list = NoProviderList | ListRejects | ListReturns jsval

record request =
  req_url :: string
  req_bearer :: string
  req_model :: string
  req_prompt :: string

text \<open>
  An answer of \<^verbatim>\<open>fetch\<close>: a rejection, or a response with \<^verbatim>\<open>ok\<close>, \<^verbatim>\<open>status\<close> and the
  value of \<^verbatim>\<open>payload.choices?.[0]?.message?.content\<close> at its declared type
  \<^verbatim>\<open>string | undefined\<close> (undefined also when the body is not JSON).
\<close>

datatype fetch_outcome = FetchRejects error | FetchResponse bool nat "string option"

record host =
  env :: "string \<Rightarrow> string option"
  JSON_parse :: "string \<Rightarrow> jsval option"
  JSON_stringify :: "jsval \<Rightarrow> string"
  number_text :: "jsnum \<Rightarrow> string"
  js_in :: "string \<Rightarrow> jsval \<Rightarrow> bool"
  object_keys :: "jsval \<Rightarrow> string list"
  default_auth_path :: string
  read_json_file :: "string \<Rightarrow> jsval option"
  live_auth :: auth_result
  provider_list :: provider_list
  list_throws :: "error option"
  session_abort :: bool
  session_promptAsync :: bool
  session_prompt :: bool
  abort_throws :: "error option"
  promptAsync_throws :: "error option"
  prompt_throws :: "error option"
  fetch :: "nat \<Rightarrow> request \<Rightarrow> fetch_outcome"
  identity_name :: "error + string"
  clock_ms :: "nat \<Rightarrow> nat"
  iso_text :: "nat \<Rightarrow> string"

section \<open>Credential resolver (plugin, index.ts)\<close>

text \<open>
  \<^verbatim>\<open>typeof v === "string" && v.trim().length > 0\<close> with the value \<^verbatim>\<open>v.trim()\<close> it
  guards.
\<close>

definition trimmed_text :: "jsval \<Rightarrow> string option" where
  "trimmed_text v =
     (case v of JStr s \<Rightarrow> if length (trim s) > 0 then Some (trim s) else None | _ \<Rightarrow> None)"

definition pickAuthToken :: "jsval \<Rightarrow> string option" where
  "pickAuthToken auth =
     (if \<not> isRecord auth then None
      else case get_prop auth ''type'' of
        JStr t \<Rightarrow>
          if t = ''api'' \<and> trimmed_text (get_prop auth ''key'') \<noteq> None
          then trimmed_text (get_prop auth ''key'')
          else if t = ''oauth'' \<and> trimmed_text (get_prop auth ''access'') \<noteq> None
          then trimmed_text (get_prop auth ''access'')
          else if t = ''wellknown'' \<and> trimmed_text (get_prop auth ''token'') \<noteq> None
          then trimmed_text (get_prop auth ''token'')
          else None
      | _ \<Rightarrow> None)"

definition pickAuthTokenFromStore :: "jsval \<Rightarrow> string \<Rightarrow> string option" where
  "pickAuthTokenFromStore payload provider =
     (if \<not> isRecord payload then None else pickAuthToken (get_prop payload provider))"

text \<open>
  \<^verbatim>\<open>a?.trim()\<close> on an environment variable, and \<^verbatim>\<open>a || b\<close> on texts: an undefined or
  empty \<open>a\<close> gives \<open>b\<close>.
\<close>

definition env_trim :: "(string \<Rightarrow> string option) \<Rightarrow> string \<Rightarrow> string option" where
  "env_trim e name = map_option trim (e name)"

definition or_text :: "string option \<Rightarrow> string \<Rightarrow> string" where
  "or_text a b = (case a of Some s \<Rightarrow> if s \<noteq> [] then s else b | None \<Rightarrow> b)"

definition or_option :: "string option \<Rightarrow> string option \<Rightarrow> string option" where
  "or_option a b = (case a of Some s \<Rightarrow> if s \<noteq> [] then Some s else b | None \<Rightarrow> b)"

text \<open>
  \<^verbatim>\<open>await input.getJudgeAuth?.().catch(() => undefined)\<close>. The accessor argument is
  \<^const>\<open>None\<close> when \<^verbatim>\<open>input.getJudgeAuth\<close> is undefined; a rejection of the accessor is
  caught and reads as \<^verbatim>\<open>undefined\<close>; an error the accessor throws is not caught.
\<close>

definition call_accessor :: "auth_result option \<Rightarrow> error + jsval" where
  "call_accessor accessor =
     (case accessor of
        None \<Rightarrow> Inr JUndefined
      | Some (AuthThrows e) \<Rightarrow> Inl e
      | Some AuthRejects \<Rightarrow> Inr JUndefined
      | Some (AuthReturns v) \<Rightarrow> Inr v)"

text \<open>
  \<^verbatim>\<open>resolveJudgeToken\<close>: \<^const>\<open>Inl\<close> is a thrown error, \<open>Inr None\<close> is \<^verbatim>\<open>null\<close>. A
  rejection of the file read is caught and reads as \<^verbatim>\<open>undefined\<close>. \<^verbatim>\<open>if (liveToken)\<close>
  and \<^verbatim>\<open>if (authToken)\<close> test for truthiness.
\<close>

definition resolveJudgeToken ::
  "host \<Rightarrow> auth_result option \<Rightarrow> string \<Rightarrow> string \<Rightarrow> error + string option" where
  "resolveJudgeToken h accessor authProviderID provider =
     (case call_accessor accessor of
        Inl e \<Rightarrow> Inl e
      | Inr live \<Rightarrow>
          (let liveToken = pickAuthToken live
           in if truthy_text liveToken then Inr liveToken
              else let pathFromEnv = env_trim (env h) ''OPENCODE_AUTH_PATH'';
                       authPath = or_text pathFromEnv (default_auth_path h);
                       payload = (case read_json_file h authPath of None \<Rightarrow> JUndefined | Some v \<Rightarrow> v);
                       authToken = or_option (pickAuthTokenFromStore payload authProviderID)
                                             (pickAuthTokenFromStore payload provider)
                   in if truthy_text authToken then Inr authToken
                      else Inr (or_option (env_trim (env h) ''MACHINA_JUDGE_API_KEY'') None)))"

section \<open>Session control (plugin, index.ts)\<close>

text \<open>The calls the plugin issues to \<^verbatim>\<open>client.session\<close>, with the session id and the text.\<close>

datatype host_call =
    CallAbort string
  | CallPromptAsync string string
  | CallPrompt string string

definition INTERRUPT_TEXT :: string where
  "INTERRUPT_TEXT = ''open-machina requested interruption due to new higher-priority user intent''"

text \<open>
  \<^verbatim>\<open>await call(...).catch(() => undefined)\<close> on a session call that has been issued: an
  error the call throws leaves the function, a promise it returns is awaited and its
  rejection is caught.
\<close>

definition awaited :: "error option \<Rightarrow> error + unit" where
  "awaited thrown = (case thrown of Some e \<Rightarrow> Inl e | None \<Rightarrow> Inr ())"

text \<open>
  \<^verbatim>\<open>abortSession\<close>: the calls issued so far are the state, and a call that throws has been
  issued. \<^const>\<open>Inl\<close> is the error thrown by the call.
\<close>

definition abortSession ::
  "host \<Rightarrow> string \<Rightarrow> host_call list \<Rightarrow> (error + unit) \<times> host_call list" where
  "abortSession h sessionID calls =
     (if session_abort h
      then (awaited (abort_throws h), calls @ [CallAbort sessionID])
      else if session_promptAsync h
      then (awaited (promptAsync_throws h), calls @ [CallPromptAsync sessionID INTERRUPT_TEXT])
      else if session_prompt h
      then (awaited (prompt_throws h), calls @ [CallPrompt sessionID INTERRUPT_TEXT])
      else (Inr (), calls))"

text \<open>
  A host for the examples, after the tests \<^verbatim>\<open>chat.message uses AI decision and injects
  orchestration context\<close> and \<^verbatim>\<open>chat.message applies defer and parallel execution
  paths\<close> of the plugin: the judge is configured in the environment, its key is in the auth
  store file, the catalog lists the model, and \<^verbatim>\<open>fetch\<close> answers every request with the
  text \<open>answer\<close>. The three flags say which session calls the host defines (the first
  test defines \<^verbatim>\<open>abort\<close> only, the second none); no call of the host throws. The judge
  of the examples does not read its prompt, so \<open>JSON_stringify\<close> is a fixed text;
  \<open>number_text\<close>, \<open>js_in\<close> and \<open>object_keys\<close> are right on the values the examples pass
  to them.
\<close>

definition example_env :: "string \<Rightarrow> string option" where
  "example_env name =
     (if name = ''MACHINA_JUDGE_API_URL'' then Some ''https://judge.example.test/v1/chat/completions''
      else if name = ''MACHINA_JUDGE_MODEL'' then Some ''gpt-judge''
      else if name = ''MACHINA_JUDGE_PROVIDER'' then Some ''openai''
      else if name = ''MACHINA_JUDGE_AUTH_PROVIDER'' then Some ''open-machina-judge''
      else if name = ''OPENCODE_AUTH_PATH'' then Some ''/tmp/open-machina-auth/auth.json''
      else None)"

definition example_catalog :: jsval where
  "example_catalog =
     JObj [(''data'', JObj [(''all'', JArr [JObj [(''id'', JStr ''openai''),
                                                 (''models'', JObj [(''gpt-judge'', JObj [])])]])])]"

definition example_host :: "bool \<Rightarrow> bool \<Rightarrow> bool \<Rightarrow> string \<Rightarrow> host" where
  "example_host has_abort has_promptAsync has_prompt answer =
     \<lparr>env = example_env,
      JSON_parse = example_JSON_parse,
      JSON_stringify = (\<lambda>v. ''{}''),
      number_text = (\<lambda>n. if n = Finite (88 / 100) then ''0.88'' else ''0''),
      js_in = (\<lambda>k v. case v of JObj kvs \<Rightarrow> k \<in> set (map fst kvs) | _ \<Rightarrow> False),
      object_keys = (\<lambda>v. case v of JObj kvs \<Rightarrow> map fst kvs | _ \<Rightarrow> []),
      default_auth_path = ''/home/user/.config/opencode/auth.json'',
      read_json_file = (\<lambda>p. if p = ''/tmp/open-machina-auth/auth.json''
                              then Some (JObj [(''open-machina-judge'',
                                                JObj [(''type'', JStr ''api''), (''key'', JStr ''token'')])])
                              else None),
      live_auth = AuthRejects,
      provider_list = ListReturns example_catalog,
      list_throws = None,
      session_abort = has_abort,
      session_promptAsync = has_promptAsync,
      session_prompt = has_prompt,
      abort_throws = None,
      promptAsync_throws = None,
      prompt_throws = None,
      fetch = (\<lambda>n r. FetchResponse True 200 (Some answer)),
      identity_name = Inr ''open-machina'',
      clock_ms = (\<lambda>n. 1770804000000 + n),
      iso_text = (\<lambda>ms. ''2026-02-11T10:00:00.000Z'')\<rparr>"

section \<open>Plugin state: work items and session queues (plugin, index.ts)\<close>

datatype Status = Running | Queued | Blocked

text \<open>
  \<^verbatim>\<open>ActiveWorkItem\<close>; the field \<^verbatim>\<open>id\<close> is \<open>item_id\<close> and \<^verbatim>\<open>priority\<close> is
  \<open>item_priority\<close> here (\<^const>\<open>id\<close> and \<^const>\<open>priority\<close> are taken).
\<close>

record ActiveWorkItem =
  item_id :: string
  title :: string
  status :: Status
  item_priority :: Priority
  startedAt :: string

text \<open>
  Work items are JavaScript objects, and the arrays of the plugin hold references to
  them: the same object may stand in several arrays, and an assignment to a field of it
  would show in all of them. So the objects live in a store, \<open>heap\<close>, a reference is an
  index into it, and an object literal (also one with a spread, \<^verbatim>\<open>{ ...top, title }\<close>)
  allocates a new index; the store is read at references the plugin holds, which are
  indices of it. \<open>sessions\<close> and \<open>sessionRuntime\<close> are the two maps of
  \<^verbatim>\<open>OpenMachinaPlugin\<close>; \<open>loader_called\<close> says whether \<^verbatim>\<open>auth.loader\<close> has set
  \<^verbatim>\<open>getJudgeAuth\<close>. The remaining fields record what the plugin did to the host: the
  session calls issued, the requests fetched, and how often the clock was read.
\<close>

type_synonym ref = nat

record SessionRuntimeState =
  deferred :: "ref list"
  parallel :: "ref list"

record world =
  heap :: "ActiveWorkItem list"
  sessions :: "string \<Rightarrow> ref list option"
  sessionRuntime :: "string \<Rightarrow> SessionRuntimeState option"
  loader_called :: bool
  host_calls :: "host_call list"
  fetched :: "request list"
  clock_reads :: nat

definition CONTROL_MARKER :: string where
  "CONTROL_MARKER = ''[OPEN-MACHINA CONTROL]''"

text \<open>An object literal: the new object is appended to the store.\<close>

definition alloc :: "ActiveWorkItem \<Rightarrow> world \<Rightarrow> ref \<times> world" where
  "alloc item w = (length (heap w), w\<lparr>heap := heap w @ [item]\<rparr>)"

text \<open>\<^verbatim>\<open>Date.now()\<close> and \<^verbatim>\<open>new Date().toISOString()\<close>: one reading of the clock each.\<close>

definition read_clock :: "host \<Rightarrow> world \<Rightarrow> nat \<times> world" where
  "read_clock h w = (clock_ms h (clock_reads w), w\<lparr>clock_reads := Suc (clock_reads w)\<rparr>)"

text \<open>ASCII \<^verbatim>\<open>toLowerCase\<close>, \<^verbatim>\<open>String.prototype.includes\<close> and \<^verbatim>\<open>split\<close> on a character.\<close>

definition to_lower_char :: "char \<Rightarrow> char" where
  "to_lower_char c =
     (case map_of (zip ''ABCDEFGHIJKLMNOPQRSTUVWXYZ'' ''abcdefghijklmnopqrstuvwxyz'') c of
        Some l \<Rightarrow> l
      | None \<Rightarrow> c)"

definition to_lower :: "string \<Rightarrow> string" where
  "to_lower s = map to_lower_char s"

fun includes_text :: "string \<Rightarrow> string \<Rightarrow> bool" where
  "includes_text [] sub = (sub = [])"
| "includes_text (c # cs) sub = (prefix sub (c # cs) \<or> includes_text cs sub)"

declare includes_text.simps [simp del]

fun split_on :: "char \<Rightarrow> string \<Rightarrow> string list" where
  "split_on sep [] = [[]]"
| "split_on sep (c # cs) =
     (if c = sep then [] # split_on sep cs
      else (case split_on sep cs of [] \<Rightarrow> [[c]] | x # xs \<Rightarrow> (c # x) # xs))"

text \<open>A natural number and an integer in a template literal: decimal digits.\<close>

definition digit_char :: "nat \<Rightarrow> char" where
  "digit_char d = ''0123456789'' ! (d mod 10)"

function decimal :: "nat \<Rightarrow> string" where
  "decimal n = (if n < 10 then [digit_char n] else decimal (n div 10) @ [digit_char (n mod 10)])"
  by pat_completeness auto
termination
  by (relation "measure (\<lambda>n. n)") auto

declare decimal.simps [simp del]

definition int_text :: "int \<Rightarrow> string" where
  "int_text i = (if i < 0 then ''-'' @ decimal (nat (- i)) else decimal (nat i))"

text \<open>\<^verbatim>\<open>classifyPriority\<close>.\<close>

definition classifyPriority :: "string \<Rightarrow> Priority" where
  "classifyPriority tool =
     (let name = to_lower tool
      in if includes_text name ''deploy'' \<or> includes_text name ''incident'' \<or> includes_text name ''backup''
         then Critical
         else if includes_text name ''workflow'' \<or> includes_text name ''channel'' then High
         else if includes_text name ''tool'' \<or> includes_text name ''storage'' then Medium
         else Low)"

text \<open>
  The hooks \<^verbatim>\<open>tool.execute.before\<close> and \<^verbatim>\<open>tool.execute.after\<close>. The first prepends a
  new object and keeps 16 references; the second builds a new array in which a matching
  item is replaced by a new object (a spread with \<^verbatim>\<open>status: "queued"\<close>) and every other
  reference is kept.
\<close>

record tool_event =
  evt_tool :: string
  evt_sessionID :: string
  evt_callID :: string

definition session_work :: "world \<Rightarrow> string \<Rightarrow> ref list" where
  "session_work w sessionID = (case sessions w sessionID of None \<Rightarrow> [] | Some work \<Rightarrow> work)"

definition tool_execute_before :: "host \<Rightarrow> tool_event \<Rightarrow> world \<Rightarrow> world" where
  "tool_execute_before h evt w =
     (let work = session_work w (evt_sessionID evt);
          (ms, w1) = read_clock h w;
          (next, w2) = alloc \<lparr>item_id = evt_tool evt @ '':'' @ evt_callID evt,
                               title = evt_tool evt,
                               status = Running,
                               item_priority = classifyPriority (evt_tool evt),
                               startedAt = iso_text h ms\<rparr> w1
      in w2\<lparr>sessions := (sessions w2)(evt_sessionID evt \<mapsto> take 16 (next # work))\<rparr>)"

fun queue_matching :: "string \<Rightarrow> ref list \<Rightarrow> world \<Rightarrow> ref list \<times> world" where
  "queue_matching key [] w = ([], w)"
| "queue_matching key (r # rs) w =
     (if item_id (heap w ! r) = key
      then (let (r', w1) = alloc ((heap w ! r)\<lparr>status := Queued\<rparr>) w;
                (rs', w2) = queue_matching key rs w1
            in (r' # rs', w2))
      else (let (rs', w2) = queue_matching key rs w in (r # rs', w2)))"

definition tool_execute_after :: "tool_event \<Rightarrow> world \<Rightarrow> world" where
  "tool_execute_after evt w =
     (let work = session_work w (evt_sessionID evt);
          (next, w1) = queue_matching (evt_tool evt @ '':'' @ evt_callID evt) work w
      in w1\<lparr>sessions := (sessions w1)(evt_sessionID evt \<mapsto> next)\<rparr>)"

text \<open>
  \<^verbatim>\<open>getSessionRuntime\<close>: the state object of a session, created with two empty queues
  and registered when the session has none.
\<close>

definition getSessionRuntime :: "string \<Rightarrow> world \<Rightarrow> SessionRuntimeState \<times> world" where
  "getSessionRuntime sessionID w =
     (case sessionRuntime w sessionID of
        Some current \<Rightarrow> (current, w)
      | None \<Rightarrow> (let next = \<lparr>deferred = [], parallel = []\<rparr>
                 in (next, w\<lparr>sessionRuntime := (sessionRuntime w)(sessionID \<mapsto> next)\<rparr>)))"

text \<open>
  An assignment to a field of the state object \<^verbatim>\<open>runtime\<close> of a session: the object is
  the one registered for the session, so the registry shows the new value.
\<close>

definition set_runtime :: "string \<Rightarrow> SessionRuntimeState \<Rightarrow> world \<Rightarrow> world" where
  "set_runtime sessionID state w = w\<lparr>sessionRuntime := (sessionRuntime w)(sessionID \<mapsto> state)\<rparr>"

text \<open>
  \<^verbatim>\<open>applyDefer\<close>; its argument \<^verbatim>\<open>state\<close> is the state object of the session, named
  here by the session id. \<^verbatim>\<open>deferUntil ? ... : top.title\<close> tests the text for truthiness:
  an undefined or empty \<^verbatim>\<open>deferUntil\<close> keeps the title. The spread allocates the
  deferred item; \<^verbatim>\<open>top\<close> is read and not written.
\<close>

definition applyDefer :: "string \<Rightarrow> ref list \<Rightarrow> string option \<Rightarrow> world \<Rightarrow> world" where
  "applyDefer sessionID active deferUntil' w =
     (case active of
        [] \<Rightarrow> w
      | r # rs \<Rightarrow>
          (let state = fst (getSessionRuntime sessionID w);
               top = heap w ! r;
               marker = (case deferUntil' of
                           Some d \<Rightarrow> if d \<noteq> [] then title top @ '' (until '' @ d @ '')'' else title top
                         | None \<Rightarrow> title top);
               (new, w1) = alloc (top\<lparr>title := marker, status := Blocked\<rparr>) w
           in set_runtime sessionID
                (state\<lparr>deferred :=
                   take 16 (new # filter (\<lambda>i. item_id (heap w ! i) \<noteq> item_id top) (deferred state))\<rparr>)
                w1))"

text \<open>\<^verbatim>\<open>applyParallel\<close>.\<close>

definition applyParallel :: "host \<Rightarrow> string \<Rightarrow> string \<Rightarrow> OrchestrationDecision \<Rightarrow> world \<Rightarrow> world" where
  "applyParallel h sessionID prompt decision w =
     (let state = fst (getSessionRuntime sessionID w);
          lane' = (case parallelPlan decision of Some p \<Rightarrow> lane p | None \<Rightarrow> Background);
          maxConcurrency' = (case parallelPlan decision of Some p \<Rightarrow> maxConcurrency p | None \<Rightarrow> 1);
          (ms, w1) = read_clock h w;
          (ms', w2) = read_clock h w1;
          (new, w3) = alloc \<lparr>item_id = ''parallel:'' @ decimal ms,
                              title = (if lane' = Foreground then ''foreground'' else ''background'')
                                      @ '' x'' @ int_text maxConcurrency' @ '': '' @ take 80 prompt,
                              status = Queued,
                              item_priority = priority decision,
                              startedAt = iso_text h ms'\<rparr> w2
      in set_runtime sessionID (state\<lparr>parallel := take 16 (new # parallel state)\<rparr>) w3)"

text \<open>\<^verbatim>\<open>formatRuntimeState\<close>.\<close>

definition formatRuntimeState :: "world \<Rightarrow> SessionRuntimeState \<Rightarrow> string" where
  "formatRuntimeState w state =
     (if length (deferred state) = 0 \<and> length (parallel state) = 0
      then CONTROL_MARKER @ '' continue-current-plan''
      else join_with '' ''
             [CONTROL_MARKER,
              ''deferred='' @ decimal (length (deferred state)),
              ''parallel='' @ decimal (length (parallel state)),
              (case deferred state of [] \<Rightarrow> ''defer-head=none''
               | r # rs \<Rightarrow> ''defer-head='' @ title (heap w ! r)),
              (case parallel state of [] \<Rightarrow> ''parallel-head=none''
               | r # rs \<Rightarrow> ''parallel-head='' @ title (heap w ! r))])"

section \<open>Judge runtime resolver (plugin, index.ts)\<close>

record JudgeConfig =
  cfg_providerID :: string
  cfg_apiUrl :: "string option"
  cfg_modelID :: string
  cfg_authProviderID :: string

record JudgeRuntime =
  rt_providerID :: string
  rt_modelID :: string
  rt_apiUrl :: string
  rt_token :: string

definition readJudgeConfig :: "(string \<Rightarrow> string option) \<Rightarrow> JudgeConfig option" where
  "readJudgeConfig e =
     (let providerID' = or_text (env_trim e ''MACHINA_JUDGE_PROVIDER'') ''openai'';
          modelID' = env_trim e ''MACHINA_JUDGE_MODEL'';
          authProviderID' = or_text (env_trim e ''MACHINA_JUDGE_AUTH_PROVIDER'') ''open-machina-judge'';
          apiUrl' = env_trim e ''MACHINA_JUDGE_API_URL''
      in case modelID' of
           None \<Rightarrow> None
         | Some m \<Rightarrow>
             if m = [] then None
             else Some \<lparr>cfg_providerID = providerID', cfg_apiUrl = apiUrl', cfg_modelID = m,
                         cfg_authProviderID = authProviderID'\<rparr>)"

definition parseModelRefList :: "string option \<Rightarrow> ModelRef list" where
  "parseModelRefList v =
     (case v of
        None \<Rightarrow> []
      | Some text' \<Rightarrow>
          if text' = [] then []
          else List.map_filter
                 (\<lambda>item. let split = split_on (CHR ''/'') item
                         in if length split \<noteq> 2 then None
                            else let p = trim (split ! 0); m = trim (split ! 1)
                                 in if p = [] \<or> m = [] then None
                                    else Some \<lparr>providerID = p, modelID = m\<rparr>)
                 (filter (\<lambda>item. length item > 0) (map trim (split_on (CHR '','') text'))))"

definition readJudgePolicy :: "(string \<Rightarrow> string option) \<Rightarrow> JudgePolicy" where
  "readJudgePolicy e =
     \<lparr>allow = parseModelRefList (e ''MACHINA_JUDGE_ALLOW_MODELS''),
      deny = parseModelRefList (e ''MACHINA_JUDGE_DENY_MODELS''),
      fallback = parseModelRefList (e ''MACHINA_JUDGE_FALLBACK_MODELS'')\<rparr>"

definition unwrapClientData :: "host \<Rightarrow> jsval \<Rightarrow> jsval" where
  "unwrapClientData h payload =
     (if isRecord payload \<and> js_in h ''data'' payload then get_prop payload ''data'' else payload)"

text \<open>
  \<^verbatim>\<open>validateJudgeTarget\<close>: \<^const>\<open>None\<close> is \<^verbatim>\<open>null\<close>, the target passes or cannot be
  checked. This is the value the function returns when the call \<^verbatim>\<open>list({})\<close> returns its
  promise; a call that throws is \<open>list_call_throws\<close> below.
\<close>

definition validateJudgeTarget :: "host \<Rightarrow> string \<Rightarrow> string \<Rightarrow> string option" where
  "validateJudgeTarget h provider model =
     (case provider_list h of
        NoProviderList \<Rightarrow> None
      | list \<Rightarrow>
          (let response = (case list of ListReturns v \<Rightarrow> v | _ \<Rightarrow> JUndefined);
               data = unwrapClientData h response
           in if \<not> isRecord data then None
              else case get_prop data ''all'' of
                JArr all \<Rightarrow>
                  (case find (\<lambda>item. isRecord item \<and> get_prop item ''id'' = JStr provider) all of
                     None \<Rightarrow>
                       Some (''AUTONOMY_JUDGE_INVALID_PROVIDER: provider '' @ provider
                             @ '' not found. Available: ''
                             @ join_with '', ''
                                 (take 8 (List.map_filter
                                    (\<lambda>item. if isRecord item
                                            then (case get_prop item ''id'' of JStr s \<Rightarrow> Some s | _ \<Rightarrow> None)
                                            else None) all)))
                   | Some found \<Rightarrow>
                       (let models = get_prop found ''models''
                        in if \<not> isRecord models \<or> \<not> js_in h model models
                           then Some (''AUTONOMY_JUDGE_INVALID_MODEL: model '' @ provider @ ''/'' @ model
                                      @ '' not found. Available examples: ''
                                      @ join_with '', ''
                                          (take 8 (object_keys h (if isRecord models then models else JObj []))))
                           else None))
              | _ \<Rightarrow> None))"

definition inferJudgeApiUrl :: "string \<Rightarrow> string option" where
  "inferJudgeApiUrl p =
     (let provider = to_lower (trim p)
      in if provider = ''openai'' then Some ''https://api.openai.com/v1/chat/completions''
         else if provider = ''openrouter'' then Some ''https://openrouter.ai/api/v1/chat/completions''
         else if provider = ''xai'' then Some ''https://api.x.ai/v1/chat/completions''
         else None)"

text \<open>
  The error that leaves \<^verbatim>\<open>validateJudgeTarget\<close> at \<^verbatim>\<open>await list({}).catch(...)\<close> when
  the host defines \<^verbatim>\<open>list\<close> and a call of it throws.
\<close>

definition list_call_throws :: "host \<Rightarrow> error option" where
  "list_call_throws h = (case provider_list h of NoProviderList \<Rightarrow> None | _ \<Rightarrow> list_throws h)"

text \<open>
  \<^verbatim>\<open>resolveJudgeRuntime\<close>: \<^const>\<open>Inl\<close> is a thrown error, \<open>Inr None\<close> is \<^verbatim>\<open>null\<close> (no
  judge configured, or no token). The loop calls \<^verbatim>\<open>validateJudgeTarget\<close>, and with it
  \<^verbatim>\<open>list\<close>, for the first time at the first candidate the policy allows, after one
  \<^verbatim>\<open>POLICY_DENY\<close> skip for each candidate before it. Where the call of \<^verbatim>\<open>list\<close> throws,
  the error leaves the loop and the function at that candidate: the run is the run of the
  loop with a check that rejects nothing, up to the candidate it reaches. When the policy
  allows no candidate, \<^verbatim>\<open>list\<close> is not called and the loop ends with
  \<^verbatim>\<open>AUTONOMY_JUDGE_POLICY_BLOCKED\<close> as on any host. An error thrown by
  \<^verbatim>\<open>resolveJudgeToken\<close> leaves the function too.
\<close>

definition resolveJudgeRuntime ::
  "host \<Rightarrow> auth_result option \<Rightarrow> ModelRef option \<Rightarrow> error + JudgeRuntime option" where
  "resolveJudgeRuntime h accessor modelHint =
     (case readJudgeConfig (env h) of
        None \<Rightarrow> Inr None
      | Some config \<Rightarrow>
          (let policy = readJudgePolicy (env h);
               base = \<lparr>providerID = or_text (map_option (\<lambda>m. trim (providerID m)) modelHint)
                                             (cfg_providerID config),
                       modelID = or_text (map_option (\<lambda>m. trim (modelID m)) modelHint)
                                          (cfg_modelID config)\<rparr>
           in if providerID base = [] \<or> modelID base = [] then Inr None
              else case list_call_throws h of
                Some e \<Rightarrow>
                  (case select_candidate policy (\<lambda>c. None) base of
                     (None, skips) \<Rightarrow>
                       Inl (Error (''AUTONOMY_JUDGE_POLICY_BLOCKED: no valid model candidate. ''
                                   @ join_with '' | '' skips))
                   | (Some reached, skips) \<Rightarrow> Inl e)
              | None \<Rightarrow>
              case select_candidate policy (\<lambda>c. validateJudgeTarget h (providerID c) (modelID c)) base of
                (None, skips) \<Rightarrow>
                  Inl (Error (''AUTONOMY_JUDGE_POLICY_BLOCKED: no valid model candidate. ''
                              @ join_with '' | '' skips))
              | (Some selected, skips) \<Rightarrow>
                  (case resolveJudgeToken h accessor (cfg_authProviderID config) (providerID selected) of
                     Inl e \<Rightarrow> Inl e
                   | Inr None \<Rightarrow> Inr None
                   | Inr (Some token) \<Rightarrow>
                       if token = [] then Inr None
                       else Inr (Some \<lparr>rt_providerID = providerID selected,
                                        rt_modelID = modelID selected,
                                        rt_apiUrl = or_text (cfg_apiUrl config)
                                                      (or_text (inferJudgeApiUrl (providerID selected))
                                                         ''https://api.openai.com/v1/chat/completions''),
                                        rt_token = token\<rparr>))))"

text \<open>\<^verbatim>\<open>callJudge\<close>: the request is recorded in the world, the answer is the host's.\<close>

definition callJudge :: "host \<Rightarrow> JudgeRuntime \<Rightarrow> string \<Rightarrow> world \<Rightarrow> (error + string) \<times> world" where
  "callJudge h config prompt w =
     (let req = \<lparr>req_url = rt_apiUrl config, req_bearer = rt_token config,
                  req_model = rt_modelID config, req_prompt = prompt\<rparr>;
          w1 = w\<lparr>fetched := fetched w @ [req]\<rparr>
      in case fetch h (length (fetched w)) req of
           FetchRejects e \<Rightarrow> (Inl e, w1)
         | FetchResponse ok st content \<Rightarrow>
             if \<not> ok then (Inl (Error (''AUTONOMY_JUDGE_FAILED: HTTP '' @ decimal st)), w1)
             else (case content of
                     None \<Rightarrow> (Inl (Error ''AUTONOMY_JUDGE_FAILED: empty response''), w1)
                   | Some t \<Rightarrow>
                       if t = [] then (Inl (Error ''AUTONOMY_JUDGE_FAILED: empty response''), w1)
                       else (Inr t, w1)))"

definition inferIntent :: "string \<Rightarrow> string" where
  "inferIntent t =
     (let lower = to_lower t
      in if includes_text lower ''urgent'' \<or> includes_text lower ''incident'' \<or> includes_text lower ''now''
         then ''urgent-request''
         else if includes_text lower ''later'' \<or> includes_text lower ''defer'' \<or> includes_text lower ''after''
         then ''deferred-request''
         else if includes_text lower ''parallel'' \<or> includes_text lower ''also''
         then ''parallel-request''
         else ''general-request'')"

section \<open>The chat-message hook and the decide tool (plugin, index.ts)\<close>

text \<open>The enumerations as the texts they are in JavaScript, and typed objects as values.\<close>

fun action_text :: "OrchestrationAction \<Rightarrow> string" where
  "action_text Abort = ''abort''"
| "action_text Defer = ''defer''"
| "action_text Parallel = ''parallel''"
| "action_text Continue = ''continue''"

fun priority_text :: "Priority \<Rightarrow> string" where
  "priority_text Critical = ''critical''"
| "priority_text High = ''high''"
| "priority_text Medium = ''medium''"
| "priority_text Low = ''low''"

fun status_text :: "Status \<Rightarrow> string" where
  "status_text Running = ''running''"
| "status_text Queued = ''queued''"
| "status_text Blocked = ''blocked''"

definition item_json :: "ActiveWorkItem \<Rightarrow> jsval" where
  "item_json item =
     JObj [(''id'', JStr (item_id item)), (''title'', JStr (title item)),
           (''status'', JStr (status_text (status item))),
           (''priority'', JStr (priority_text (item_priority item))),
           (''startedAt'', JStr (startedAt item))]"

definition decision_json :: "OrchestrationDecision \<Rightarrow> jsval" where
  "decision_json d =
     JObj ([(''action'', JStr (action_text (action d))), (''confidence'', JNum (confidence d)),
            (''reason'', JStr (reason d)), (''priority'', JStr (priority_text (priority d)))]
           @ (case deferUntil d of None \<Rightarrow> [] | Some t \<Rightarrow> [(''deferUntil'', JStr t)])
           @ (case parallelPlan d of
                None \<Rightarrow> []
              | Some p \<Rightarrow>
                  [(''parallelPlan'',
                    JObj [(''lane'', JStr (if lane p = Foreground then ''foreground'' else ''background'')),
                          (''maxConcurrency'', JNum (Finite (of_int (maxConcurrency p))))])]))"

record chat_event =
  sessionID :: string
  model :: "ModelRef option"

record part =
  ptype :: string
  ptext :: "string option"

text \<open>What an arbitration hands to the state machine: lines 358-405 of the hook.\<close>

record arbitration =
  arb_active :: "ref list"
  arb_prompt :: string
  arb_decision :: OrchestrationDecision

definition accessor_of :: "host \<Rightarrow> world \<Rightarrow> auth_result option" where
  "accessor_of h w = (if loader_called w then Some (live_auth h) else None)"

text \<open>Lines 387-405: the input snapshot is built and the decision protocol is run.\<close>

definition request_decision ::
  "host \<Rightarrow> JudgeRuntime \<Rightarrow> string \<Rightarrow> ref list \<Rightarrow> world \<Rightarrow> (error + OrchestrationDecision) \<times> world" where
  "request_decision h judge prompt active w =
     (case identity_name h of
        Inl e \<Rightarrow> (Inl e, w)
      | Inr name \<Rightarrow>
          (let (ms, w1) = read_clock h w;
               input = JObj
                 [(''now'', JStr (iso_text h ms)),
                  (''userMessage'', JStr prompt),
                  (''userIntent'', JStr (inferIntent prompt)),
                  (''persona'', JObj
                     [(''name'', JStr name),
                      (''traits'', JArr [JStr ''autonomous'', JStr ''proactive'', JStr ''user-aligned'']),
                      (''goals'', JArr [JStr ''maximize user goal completion'',
                                        JStr ''maintain continuity'']),
                      (''fixedPrinciples'', JArr [JStr ''prevent direct harm to user or humans''])]),
                  (''activeWork'', JArr (map (\<lambda>r. item_json (heap w1 ! r)) active)),
                  (''systemState'', JObj [(''networkHealth'', JStr ''good'')])]
           in decideOrchestration (JSON_parse h) (JSON_stringify h) input
                (\<lambda>s judgePrompt. callJudge h judge judgePrompt s) w1))"

text \<open>Lines 358-386, then the decision.\<close>

definition arbitrate ::
  "host \<Rightarrow> chat_event \<Rightarrow> part list \<Rightarrow> world \<Rightarrow> (error + arbitration option) \<times> world" where
  "arbitrate h evt parts w =
     (let (runtime, w0) = getSessionRuntime (sessionID evt) w;
          active = filter (\<lambda>r. status (heap w0 ! r) = Running) (session_work w0 (sessionID evt))
      in if length active = 0 then (Inr None, w0)
         else
           let prompt = trim (join_with [CHR 0x0A]
                          (map (\<lambda>p. case ptext p of Some t \<Rightarrow> t | None \<Rightarrow> [])
                             (filter (\<lambda>p. ptype p = ''text'' \<and> ptext p \<noteq> None) parts)))
           in if prompt = [] then (Inr None, w0)
              else if includes_text prompt CONTROL_MARKER then (Inr None, w0)
              else case resolveJudgeRuntime h (accessor_of h w0) (model evt) of
                Inl e \<Rightarrow> (Inl e, w0)
              | Inr None \<Rightarrow> (Inr None, w0)
              | Inr (Some judge) \<Rightarrow>
                  (case request_decision h judge prompt active w0 of
                     (Inl e, w2) \<Rightarrow> (Inl e, w2)
                   | (Inr decision, w2) \<Rightarrow>
                       (Inr (Some \<lparr>arb_active = active, arb_prompt = prompt,
                                   arb_decision = decision\<rparr>), w2)))"

text \<open>\<^verbatim>\<open>Array.prototype.findIndex\<close>, \<^const>\<open>None\<close> for -1.\<close>

fun find_index :: "('a \<Rightarrow> bool) \<Rightarrow> 'a list \<Rightarrow> nat option" where
  "find_index P [] = None"
| "find_index P (x # xs) = (if P x then Some 0 else map_option Suc (find_index P xs))"

text \<open>
  Lines 407-436 of the hook: the decision is applied to the queues of the session and
  the decision text is put before the first text part. On an abort decision
  \<^verbatim>\<open>abortSession\<close> is awaited first: an error it throws ends the hook there, with the
  call issued and before the two queues are assigned.
\<close>

definition apply_arbitration ::
  "host \<Rightarrow> chat_event \<Rightarrow> arbitration \<Rightarrow> part list \<Rightarrow> world \<Rightarrow> (error + unit) \<times> part list \<times> world" where
  "apply_arbitration h evt a parts w =
     (let decision = arb_decision a;
          runtime = fst (getSessionRuntime (sessionID evt) w);
          (aborted, w0) = (if action decision = Abort
                           then (case abortSession h (sessionID evt) (host_calls w) of
                                   (r, calls) \<Rightarrow> (r, w\<lparr>host_calls := calls\<rparr>))
                           else (Inr (), w))
      in case aborted of
           Inl e \<Rightarrow> (Inl e, parts, w0)
         | Inr u \<Rightarrow>
             (let w1 = (if action decision = Abort
                        then set_runtime (sessionID evt) (runtime\<lparr>deferred := [], parallel := []\<rparr>) w0
                        else w0);
                  w2 = (if action decision = Defer
                        then applyDefer (sessionID evt) (arb_active a) (deferUntil decision) w1
                        else w1);
                  w3 = (if action decision = Parallel
                        then applyParallel h (sessionID evt) (arb_prompt a) decision w2
                        else w2);
                  runtimeText = formatRuntimeState w3 (fst (getSessionRuntime (sessionID evt) w3));
                  decisionText = join_with [CHR 0x0A]
                    [''[OPEN-MACHINA ORCHESTRATION DECISION]'',
                     ''action='' @ action_text (action decision),
                     ''priority='' @ priority_text (priority decision),
                     ''confidence='' @ number_text h (confidence decision),
                     ''reason='' @ reason decision,
                     runtimeText]
              in case find_index (\<lambda>p. ptype p = ''text'') parts of
                   None \<Rightarrow> (Inr (), parts, w3)
                 | Some index \<Rightarrow>
                     (let original = (case ptext (parts ! index) of Some t \<Rightarrow> t | None \<Rightarrow> [])
                      in (Inr (),
                          parts[index := \<lparr>ptype = ''text'',
                                          ptext = Some (decisionText @ [CHR 0x0A, CHR 0x0A] @ ''---''
                                                        @ [CHR 0x0A, CHR 0x0A] @ original)\<rparr>],
                          w3))))"

text \<open>
  The hook \<^verbatim>\<open>chat.message\<close>: it resolves (\<open>Inr ()\<close>) or rejects with an error, and in
  both cases leaves the parts and the world as they are returned here.
\<close>

definition chat_message ::
  "host \<Rightarrow> chat_event \<Rightarrow> part list \<Rightarrow> world \<Rightarrow> (error + unit) \<times> part list \<times> world" where
  "chat_message h evt parts w =
     (case arbitrate h evt parts w of
        (Inl e, w1) \<Rightarrow> (Inl e, parts, w1)
      | (Inr None, w1) \<Rightarrow> (Inr (), parts, w1)
      | (Inr (Some a), w1) \<Rightarrow> apply_arbitration h evt a parts w1)"

definition parseModelRef :: "jsval \<Rightarrow> ModelRef option" where
  "parseModelRef v =
     (if \<not> isRecord v then None
      else case (get_prop v ''providerID'', get_prop v ''modelID'') of
        (JStr p, JStr m) \<Rightarrow> Some \<lparr>providerID = p, modelID = m\<rparr>
      | _ \<Rightarrow> None)"

text \<open>The tool \<^verbatim>\<open>open_machina_decide\<close>: its \<^verbatim>\<open>execute\<close> on the arguments object.\<close>

definition open_machina_decide :: "host \<Rightarrow> jsval \<Rightarrow> world \<Rightarrow> (error + string) \<times> world" where
  "open_machina_decide h args w =
     (let inputArg = get_prop args ''input''
      in if \<not> isRecord inputArg then (Inl (Error ''INVALID_INPUT: expected input object''), w)
         else
           let modelArg = parseModelRef (get_prop args ''model'')
           in case resolveJudgeRuntime h (accessor_of h w) modelArg of
                Inl e \<Rightarrow> (Inl e, w)
              | Inr None \<Rightarrow>
                  (Inl (Error ''AUTONOMY_JUDGE_UNAVAILABLE: run `opencode auth login` for provider open-machina-judge (or set MACHINA_JUDGE_AUTH_PROVIDER) and configure MACHINA_JUDGE_MODEL''),
                   w)
              | Inr (Some judge) \<Rightarrow>
                  (case decideOrchestration (JSON_parse h) (JSON_stringify h) inputArg
                          (\<lambda>s prompt. callJudge h judge prompt s) w of
                     (Inl e, w1) \<Rightarrow> (Inl e, w1)
                   | (Inr decision, w1) \<Rightarrow> (Inr (JSON_stringify h (decision_json decision)), w1)))"

text \<open>The plugin as \<^verbatim>\<open>OpenMachinaPlugin\<close> returns it: two empty maps, no accessor.\<close>

definition initial_world :: world where
  "initial_world =
     \<lparr>heap = [], sessions = Map.empty, sessionRuntime = Map.empty, loader_called = False,
      host_calls = [], fetched = [], clock_reads = 0\<rparr>"

text \<open>
  The host of the test \<^verbatim>\<open>open_machina_decide applies deny policy and uses fallback
  chain\<close>: the configured model is denied, one fallback is given, the catalog lists both.
\<close>

definition fallback_env :: "string \<Rightarrow> string option" where
  "fallback_env name =
     (if name = ''MACHINA_JUDGE_API_URL'' then Some ''https://judge.example.test/v1/chat/completions''
      else if name = ''MACHINA_JUDGE_PROVIDER'' then Some ''openai''
      else if name = ''MACHINA_JUDGE_MODEL'' then Some ''gpt-primary''
      else if name = ''MACHINA_JUDGE_AUTH_PROVIDER'' then Some ''open-machina-judge''
      else if name = ''MACHINA_JUDGE_DENY_MODELS'' then Some ''openai/gpt-primary''
      else if name = ''MACHINA_JUDGE_FALLBACK_MODELS'' then Some ''openai/gpt-fallback''
      else if name = ''OPENCODE_AUTH_PATH'' then Some ''/tmp/open-machina-auth/auth.json''
      else None)"

definition fallback_host :: host where
  "fallback_host =
     (example_host False False False abort_json)
       \<lparr>env := fallback_env,
        provider_list := ListReturns
          (JObj [(''data'', JObj [(''all'', JArr [JObj [(''id'', JStr ''openai''),
             (''models'', JObj [(''gpt-primary'', JObj []), (''gpt-fallback'', JObj [])])]])])])\<rparr>"

text \<open>
  The state of the examples: the plugin as created, after one \<^verbatim>\<open>tool.execute.before\<close>
  for a tool in session \<^verbatim>\<open>s-1\<close>; the chat event and message parts of the first test.
\<close>

definition example_world :: "string \<Rightarrow> world" where
  "example_world tool =
     tool_execute_before (example_host True False False abort_json)
       \<lparr>evt_tool = tool, evt_sessionID = ''s-1'', evt_callID = ''c-1''\<rparr> initial_world"

definition example_event :: chat_event where
  "example_event = \<lparr>sessionID = ''s-1'', model = None\<rparr>"

definition example_parts :: "part list" where
  "example_parts = [\<lparr>ptype = ''text'', ptext = Some ''Stop current task and handle incident now''\<rparr>]"

text \<open>
  The plugin after it has deferred the running item of session \<^verbatim>\<open>s-1\<close> (the hook of
  the test \<^verbatim>\<open>chat.message applies defer and parallel execution paths\<close>): the deferred
  queue of the session holds one item. A host whose auth store file holds a key under a
  custom auth-provider id and an access token under the provider id, and whose
  environment holds a key as well. And a host that differs from the host of the first
  test in one point: its \<^verbatim>\<open>client.session.abort\<close> is a function that throws.
\<close>

definition deferred_world :: world where
  "deferred_world =
     snd (snd (chat_message (example_host False False False defer_json) example_event example_parts
                 (example_world ''workflow.run'')))"

definition cascade_host :: host where
  "cascade_host =
     (example_host False False False abort_json)
       \<lparr>env := (\<lambda>name. if name = ''MACHINA_JUDGE_API_KEY'' then Some '' env-token ''
                        else example_env name),
        read_json_file :=
          (\<lambda>p. if p = ''/tmp/open-machina-auth/auth.json''
                then Some (JObj [(''custom-judge'',
                                  JObj [(''type'', JStr ''api''), (''key'', JStr '' first-key '')]),
                                 (''openai'',
                                  JObj [(''type'', JStr ''oauth''), (''access'', JStr ''second-key'')])])
                else None)\<rparr>"

definition throwing_host :: host where
  "throwing_host =
     (example_host True False False abort_json)\<lparr>abort_throws := Some (Error ''session.abort failed'')\<rparr>"

text \<open>
  Every reference in a list of the tracker points into the store: an invariant of the
  states the plugin reaches.
\<close>

definition tracker_valid :: "world \<Rightarrow> bool" where
  "tracker_valid w = (\<forall>s. \<forall>r \<in> set (session_work w s). r < length (heap w))"

text \<open>
  Two worlds that differ at most in the record of fetched requests and clock readings:
  the plugin's own memory and the session calls issued are the same.
\<close>

definition same_plugin :: "world \<Rightarrow> world \<Rightarrow> bool" where
  "same_plugin w w' =
     (heap w' = heap w \<and> sessions w' = sessions w \<and> sessionRuntime w' = sessionRuntime w
      \<and> loader_called w' = loader_called w \<and> host_calls w' = host_calls w)"

section \<open>Properties of the policy evaluator\<close>

lemma dedupe_loop_first_seen:
  "dedupe_loop keys out items = out @ first_seen (filter (\<lambda>x. ref_key x \<notin> keys) items)"
proof (induction items arbitrary: keys out)
  case Nil
  show ?case by simp
next
  case (Cons item items)
  have narrow: "filter (\<lambda>y. ref_key y \<noteq> ref_key item) (filter (\<lambda>x. ref_key x \<notin> keys) items)
      = filter (\<lambda>x. ref_key x \<notin> insert (ref_key item) keys) items"
    by (induction items) auto
  show ?case
  proof (cases "ref_key item \<in> keys")
    case True
    then show ?thesis using Cons.IH [of keys out] by simp
  next
    case False
    then show ?thesis
      using Cons.IH [of "insert (ref_key item) keys" "out @ [item]"] narrow by simp
  qed
qed

lemma select_loop_find:
  "fst (select_loop policy validate skips cs)
     = find (\<lambda>c. isPolicyAllowed policy c \<and> \<not> truthy_text (validate c)) cs"
  by (induction cs arbitrary: skips) (simp_all add: Let_def)

text \<open>
  The list the specification describes has each identity key once, has the keys of the
  input, and is a subsequence of the input: the order is the order of first occurrence.
\<close>

lemma first_seen_keys: "set (map ref_key (first_seen xs)) = set (map ref_key xs)"
proof (induction xs rule: first_seen.induct)
  case 1
  show ?case by simp
next
  case (2 x xs)
  then show ?case by auto
qed

lemma first_seen_distinct: "distinct (map ref_key (first_seen xs))"
proof (induction xs rule: first_seen.induct)
  case 1
  show ?case by simp
next
  case (2 x xs)
  have "ref_key x \<notin> set (map ref_key (filter (\<lambda>y. ref_key y \<noteq> ref_key x) xs))"
    by auto
  then have "ref_key x \<notin> set (map ref_key (first_seen (filter (\<lambda>y. ref_key y \<noteq> ref_key x) xs)))"
    unfolding first_seen_keys .
  with 2 show ?case by simp
qed

lemma first_seen_subseq: "subseq (first_seen xs) xs"
proof (induction xs rule: first_seen.induct)
  case 1
  show ?case by simp
next
  case (2 x xs)
  have "subseq (filter (\<lambda>y. ref_key y \<noteq> ref_key x) xs) xs"
    by (rule subseq_filter_left)
  with 2 have "subseq (first_seen (filter (\<lambda>y. ref_key y \<noteq> ref_key x) xs)) xs"
    by (rule subseq_order.trans)
  then show ?case by simp
qed

text \<open>
  C3. A reference whose key equals the key of a deny entry is rejected whatever the
  allow list holds; a reference that is not denied is allowed when the allow list is
  empty, and otherwise exactly when its key equals the key of an allow entry.
\<close>

theorem isPolicyAllowed_deny_precedence:
  "isPolicyAllowed policy target =
     (if \<exists>item \<in> set (deny policy). ref_key item = ref_key target then False
      else if allow policy = [] then True
      else \<exists>item \<in> set (allow policy). ref_key item = ref_key target)"
  by (simp add: isPolicyAllowed_def Let_def list_ex_iff)

text \<open>
  The runtime that \<^verbatim>\<open>resolveJudgeRuntime\<close> returns names the selected candidate.
\<close>

lemma resolveJudgeRuntime_selected:
  assumes "resolveJudgeRuntime h accessor modelHint = Inr (Some rt)"
  shows "\<exists>config base.
           readJudgeConfig (env h) = Some config
         \<and> base = \<lparr>providerID = or_text (map_option (\<lambda>m. trim (providerID m)) modelHint)
                                        (cfg_providerID config),
                    modelID = or_text (map_option (\<lambda>m. trim (modelID m)) modelHint)
                                     (cfg_modelID config)\<rparr>
         \<and> find (\<lambda>c. isPolicyAllowed (readJudgePolicy (env h)) c
                     \<and> \<not> truthy_text (validateJudgeTarget h (providerID c) (modelID c)))
              (first_seen (base # fallback (readJudgePolicy (env h))))
             = Some \<lparr>providerID = rt_providerID rt, modelID = rt_modelID rt\<rparr>"
proof -
  obtain config where config: "readJudgeConfig (env h) = Some config"
    using assms by (cases "readJudgeConfig (env h)") (simp_all add: resolveJudgeRuntime_def)
  define policy where "policy = readJudgePolicy (env h)"
  define base where "base = \<lparr>providerID = or_text (map_option (\<lambda>m. trim (providerID m)) modelHint)
                                        (cfg_providerID config),
                    modelID = or_text (map_option (\<lambda>m. trim (modelID m)) modelHint)
                                     (cfg_modelID config)\<rparr>"
  define validate where "validate = (\<lambda>c :: ModelRef. validateJudgeTarget h (providerID c) (modelID c))"
  obtain selected skips where sel: "select_candidate policy validate base = (selected, skips)"
    by (cases "select_candidate policy validate base")
  have found: "selected = find (\<lambda>c. isPolicyAllowed policy c \<and> \<not> truthy_text (validate c))
                            (first_seen (base # fallback policy))"
    using sel select_loop_find [of policy validate "[]" "dedupeModelRefs (base # fallback policy)"]
      dedupe_loop_first_seen [of "{}" "[]" "base # fallback policy"]
    by (simp add: select_candidate_def dedupeModelRefs_def)
  have "selected = Some \<lparr>providerID = rt_providerID rt, modelID = rt_modelID rt\<rparr>"
    using assms sel
    by (auto simp add: resolveJudgeRuntime_def config Let_def policy_def [symmetric]
        base_def [symmetric] validate_def [symmetric]
        split: if_splits option.splits sum.splits prod.splits)
  then show ?thesis
    using config found by (simp add: policy_def base_def validate_def)
qed

text \<open>
  Where the call of \<^verbatim>\<open>list\<close> throws and the policy allows a candidate, the resolution
  rejects with the error thrown.
\<close>

lemma resolveJudgeRuntime_list_throws:
  assumes config: "readJudgeConfig (env h) = Some config"
      and base: "base = \<lparr>providerID = or_text (map_option (\<lambda>m. trim (providerID m)) modelHint)
                                        (cfg_providerID config),
                          modelID = or_text (map_option (\<lambda>m. trim (modelID m)) modelHint)
                                     (cfg_modelID config)\<rparr>"
      and nonempty: "providerID base \<noteq> []" "modelID base \<noteq> []"
      and throws: "list_call_throws h = Some e"
      and allowed: "\<exists>c \<in> set (first_seen (base # fallback (readJudgePolicy (env h)))).
                      isPolicyAllowed (readJudgePolicy (env h)) c"
  shows "resolveJudgeRuntime h accessor modelHint = Inl e"
proof -
  define policy where "policy = readJudgePolicy (env h)"
  obtain reached skips where sel: "select_candidate policy (\<lambda>c. None) base = (reached, skips)"
    by (cases "select_candidate policy (\<lambda>c. None) base")
  define cands where "cands = first_seen (base # fallback policy)"
  have dedupe: "dedupeModelRefs (base # fallback policy) = cands"
    using dedupe_loop_first_seen [of "{}" "[]" "base # fallback policy"]
    by (simp add: dedupeModelRefs_def cands_def del: first_seen.simps)
  have reached: "reached = find (\<lambda>c. isPolicyAllowed policy c \<and> \<not> truthy_text None) cands"
    using sel select_loop_find [of policy "\<lambda>c. None" "[]" cands]
    by (simp add: select_candidate_def dedupe)
  have "\<exists>c \<in> set cands. isPolicyAllowed policy c"
    unfolding cands_def policy_def by (rule allowed)
  then have "reached \<noteq> None"
    unfolding reached by (auto simp add: find_None_iff truthy_text_def)
  then show ?thesis
    using sel nonempty throws
    by (auto simp add: resolveJudgeRuntime_def config Let_def policy_def [symmetric]
        base [symmetric])
qed

section \<open>Properties of the decision protocol\<close>


lemma example_texts_distinct:
  "''not-json'' \<noteq> abort_json" "''not-json'' \<noteq> defer_number_json"
  "''not-json'' \<noteq> defer_json"
  "abort_json \<noteq> defer_number_json" "defer_number_json \<noteq> abort_json"
  "abort_json \<noteq> defer_json" "defer_json \<noteq> abort_json"
  "defer_number_json \<noteq> defer_json" "defer_json \<noteq> defer_number_json"
  by (simp_all add: abort_json_def defer_number_json_def defer_json_def)

lemma parseDecision_not_json:
  "json_parse ''not-json'' = None \<Longrightarrow> parseDecision json_parse ''not-json'' = None"
  by (simp add: parseDecision_def parse_payload_def brace_match_def)

lemma example_parse_not_json: "example_JSON_parse ''not-json'' = None"
  by (simp add: example_JSON_parse_def example_texts_distinct)

lemma example_parse_abort:
  "parseDecision example_JSON_parse abort_json =
     Some \<lparr>action = Abort, confidence = Finite (88 / 100),
            reason = ''Critical user incident supersedes current medium priority task'',
            priority = Critical, deferUntil = None, parallelPlan = None\<rparr>"
  by (simp add: parseDecision_def parse_payload_def example_JSON_parse_def decision_of_def
      trim_def is_space_def parseParallelPlan_def)

lemma decision_of_None:
  "(decision_of parsed = None) =
     (\<not> isRecord parsed
      \<or> \<not> isAction (get_prop parsed ''action'')
      \<or> \<not> (\<exists>q. get_prop parsed ''confidence'' = JNum (Finite q) \<and> 0 \<le> q \<and> q \<le> 1)
      \<or> \<not> (\<exists>r. get_prop parsed ''reason'' = JStr r \<and> trim r \<noteq> [])
      \<or> \<not> isPriority (get_prop parsed ''priority''))"
proof (cases "get_prop parsed ''confidence''")
  case (JNum c)
  then show ?thesis
    by (cases c)
       (auto simp add: decision_of_def isAction_def isPriority_def Let_def
          split: option.splits jsval.splits)
qed (auto simp add: decision_of_def isAction_def isPriority_def Let_def split: option.splits)

lemma decision_of_optional:
  assumes "decision_of parsed = Some d"
  shows "deferUntil d = (case get_prop parsed ''deferUntil'' of
                           JStr t \<Rightarrow> if t = [] then None else Some t | _ \<Rightarrow> None)"
    and "parallelPlan d = parseParallelPlan (get_prop parsed ''parallelPlan'')"
  using assms
  by (auto simp add: decision_of_def Let_def split: option.splits jsval.splits if_splits)

lemma parseParallelPlan_None:
  "(parseParallelPlan p = None) =
     (\<not> isRecord p
      \<or> (get_prop p ''lane'' \<noteq> JStr ''foreground'' \<and> get_prop p ''lane'' \<noteq> JStr ''background'')
      \<or> \<not> (\<exists>n. get_prop p ''maxConcurrency'' = JNum n))"
  by (auto simp add: parseParallelPlan_def split: jsval.splits)

text \<open>
  C4. When the first response of the judge is not a valid decision, the judge is called
  exactly once more, with the repair prompt, and that response is validated: a valid one
  is the result, an invalid one ends the operation with
  \<^verbatim>\<open>ORCHESTRATION_DECISION_INVALID\<close>, and no third call is made. The recorded prompts are
  the decision prompt and the repair prompt. With the judge of the repository's test (first
  \<^verbatim>\<open>not-json\<close>, then a valid decision) the two calls return the second decision.
\<close>

theorem decideOrchestration_one_repair:
  assumes first: "judge s (createDecisionPrompt stringify input) = (Inr first, s1)"
      and invalid: "parseDecision json_parse first = None"
      and second: "judge s1 REPAIR_PROMPT = (r2, s2)"
  shows "decideOrchestration json_parse stringify input (recording judge) ([], s) =
           ((case r2 of
               Inl e \<Rightarrow> Inl e
             | Inr repair \<Rightarrow>
                 (case parseDecision json_parse repair of
                    Some d \<Rightarrow> Inr d
                  | None \<Rightarrow> Inl (Error ''ORCHESTRATION_DECISION_INVALID: judge response did not return valid decision JSON''))),
            ([createDecisionPrompt stringify input, REPAIR_PROMPT], s2))"
  using first invalid second
  by (simp add: decideOrchestration_def recording_def Let_def split: sum.splits option.splits)

theorem decideOrchestration_one_repair_witness:
  "decideOrchestration example_JSON_parse (\<lambda>i :: unit. ''{}'') () (recording test_judge) ([], 0) =
     (Inr \<lparr>action = Abort, confidence = Finite (88 / 100),
            reason = ''Critical user incident supersedes current medium priority task'',
            priority = Critical, deferUntil = None, parallelPlan = None\<rparr>,
      ([createDecisionPrompt (\<lambda>i :: unit. ''{}'') (), REPAIR_PROMPT], 2))"
proof -
  have first: "test_judge 0 (createDecisionPrompt (\<lambda>i :: unit. ''{}'') ()) = (Inr ''not-json'', 1)"
    by (simp add: test_judge_def)
  have invalid: "parseDecision example_JSON_parse ''not-json'' = None"
    using parseDecision_not_json [of example_JSON_parse] example_parse_not_json by simp
  have second: "test_judge 1 REPAIR_PROMPT = (Inr abort_json, 2)"
    by (simp add: test_judge_def)
  show ?thesis
    using decideOrchestration_one_repair [OF first invalid second] example_parse_abort by simp
qed


text \<open>
  C1, as amended. \<^verbatim>\<open>parseDecision\<close> returns no decision exactly when the parsed value is
  not a record or one of the four required fields is outside its domain (action,
  confidence a number in [0,1], reason non-empty after trimming, priority). The two
  optional fields never invalidate a decision: \<^verbatim>\<open>deferUntil\<close> is kept when it is a
  non-empty string and dropped otherwise, \<^verbatim>\<open>parallelPlan\<close> is kept when it is a record
  with lane foreground or background and a numeric maxConcurrency and dropped otherwise.
\<close>

theorem parseDecision_required_fields_decide:
  assumes parsed: "parse_payload json_parse raw = Some parsed"
  shows "((parseDecision json_parse raw = None) =
            (\<not> isRecord parsed
             \<or> \<not> isAction (get_prop parsed ''action'')
             \<or> \<not> (\<exists>q. get_prop parsed ''confidence'' = JNum (Finite q) \<and> 0 \<le> q \<and> q \<le> 1)
             \<or> \<not> (\<exists>r. get_prop parsed ''reason'' = JStr r \<and> trim r \<noteq> [])
             \<or> \<not> isPriority (get_prop parsed ''priority'')))
       \<and> (\<forall>d. parseDecision json_parse raw = Some d \<longrightarrow>
              deferUntil d = (case get_prop parsed ''deferUntil'' of
                                JStr t \<Rightarrow> if t = [] then None else Some t | _ \<Rightarrow> None)
            \<and> parallelPlan d = parseParallelPlan (get_prop parsed ''parallelPlan'')
            \<and> ((parallelPlan d = None) =
                 (\<not> isRecord (get_prop parsed ''parallelPlan'')
                  \<or> (get_prop (get_prop parsed ''parallelPlan'') ''lane'' \<noteq> JStr ''foreground''
                       \<and> get_prop (get_prop parsed ''parallelPlan'') ''lane'' \<noteq> JStr ''background'')
                  \<or> \<not> (\<exists>n. get_prop (get_prop parsed ''parallelPlan'') ''maxConcurrency'' = JNum n))))"
proof -
  have same: "parseDecision json_parse raw = decision_of parsed"
    using parsed by (simp add: parseDecision_def)
  have a: "(decision_of parsed = None) =
            (\<not> isRecord parsed
             \<or> \<not> isAction (get_prop parsed ''action'')
             \<or> \<not> (\<exists>q. get_prop parsed ''confidence'' = JNum (Finite q) \<and> 0 \<le> q \<and> q \<le> 1)
             \<or> \<not> (\<exists>r. get_prop parsed ''reason'' = JStr r \<and> trim r \<noteq> [])
             \<or> \<not> isPriority (get_prop parsed ''priority''))"
    by (rule decision_of_None)
  have b: "deferUntil d = (case get_prop parsed ''deferUntil'' of
                                JStr t \<Rightarrow> if t = [] then None else Some t | _ \<Rightarrow> None)
            \<and> parallelPlan d = parseParallelPlan (get_prop parsed ''parallelPlan'')
            \<and> ((parallelPlan d = None) =
                 (\<not> isRecord (get_prop parsed ''parallelPlan'')
                  \<or> (get_prop (get_prop parsed ''parallelPlan'') ''lane'' \<noteq> JStr ''foreground''
                       \<and> get_prop (get_prop parsed ''parallelPlan'') ''lane'' \<noteq> JStr ''background'')
                  \<or> \<not> (\<exists>n. get_prop (get_prop parsed ''parallelPlan'') ''maxConcurrency'' = JNum n)))"
    if "decision_of parsed = Some d" for d
    using decision_of_optional [OF that]
      parseParallelPlan_None [of "get_prop parsed ''parallelPlan''"]
    by simp
  show ?thesis
    unfolding same using a b by blast
qed

lemma example_payload_defer_number:
  "parse_payload example_JSON_parse defer_number_json =
     Some (JObj [(''action'', JStr ''defer''), (''confidence'', JNum (Finite (1 / 2))),
                 (''reason'', JStr ''later''), (''priority'', JStr ''low''),
                 (''deferUntil'', JNum (Finite 5))])"
  by (simp add: parse_payload_def example_JSON_parse_def example_texts_distinct)

theorem parseDecision_required_fields_decide_witness:
  "parse_payload example_JSON_parse defer_number_json =
     Some (JObj [(''action'', JStr ''defer''), (''confidence'', JNum (Finite (1 / 2))),
                 (''reason'', JStr ''later''), (''priority'', JStr ''low''),
                 (''deferUntil'', JNum (Finite 5))])
   \<and> parseDecision example_JSON_parse defer_number_json \<noteq> None"
proof -
  let ?obj = "JObj [(''action'', JStr ''defer''), (''confidence'', JNum (Finite (1 / 2))),
                 (''reason'', JStr ''later''), (''priority'', JStr ''low''),
                 (''deferUntil'', JNum (Finite 5))]"
  note t = parseDecision_required_fields_decide [OF example_payload_defer_number, THEN conjunct1]
  have i: "isRecord ?obj" "isAction (get_prop ?obj ''action'')" "isPriority (get_prop ?obj ''priority'')"
    by (simp_all add: isAction_def isPriority_def)
  have c: "\<exists>q. get_prop ?obj ''confidence'' = JNum (Finite q) \<and> 0 \<le> q \<and> q \<le> 1"
    by (rule exI [of _ "1 / 2"]) simp
  have r: "\<exists>r. get_prop ?obj ''reason'' = JStr r \<and> trim r \<noteq> []"
    by (rule exI [of _ "''later''"]) (simp add: trim_def is_space_def)
  have "parseDecision example_JSON_parse defer_number_json \<noteq> None"
    unfolding t using i c r by blast
  then show ?thesis using example_payload_defer_number by simp
qed

text \<open>
  C1 as stated fails: a response whose \<^verbatim>\<open>deferUntil\<close> is the number 5 is parsed to a
  decision, with the field dropped.
\<close>

theorem parseDecision_drops_deferUntil_counterexample:
  "get_prop (the (parse_payload example_JSON_parse defer_number_json)) ''deferUntil'' = JNum (Finite 5)
   \<and> parseDecision example_JSON_parse defer_number_json =
       Some \<lparr>action = Defer, confidence = Finite (1 / 2), reason = ''later'', priority = Low,
              deferUntil = None, parallelPlan = None\<rparr>"
  by (simp add: parseDecision_def parse_payload_def example_JSON_parse_def decision_of_def
      trim_def is_space_def parseParallelPlan_def example_texts_distinct)

section \<open>Frame properties of the arbitration\<close>


lemma decideOrchestration_invariant:
  assumes step: "\<And>s p. Q s \<Longrightarrow> Q (snd (judge s p))" and start: "Q s"
  shows "Q (snd (decideOrchestration json_parse stringify input judge s))"
proof -
  obtain r1 s1 where j1: "judge s (createDecisionPrompt stringify input) = (r1, s1)"
    by (cases "judge s (createDecisionPrompt stringify input)")
  obtain r2 s2 where j2: "judge s1 REPAIR_PROMPT = (r2, s2)"
    by (cases "judge s1 REPAIR_PROMPT")
  have q1: "Q s1" using step [OF start, of "createDecisionPrompt stringify input"] j1 by simp
  have q2: "Q s2" using step [OF q1, of REPAIR_PROMPT] j2 by simp
  show ?thesis
    using q1 q2 j1 j2
    by (simp add: decideOrchestration_def Let_def split: sum.splits option.splits)
qed

lemma decideOrchestration_parsed:
  assumes "fst (decideOrchestration json_parse stringify input judge s) = Inr d"
  shows "\<exists>raw. parseDecision json_parse raw = Some d"
proof -
  obtain r1 s1 where j1: "judge s (createDecisionPrompt stringify input) = (r1, s1)"
    by (cases "judge s (createDecisionPrompt stringify input)")
  obtain r2 s2 where j2: "judge s1 REPAIR_PROMPT = (r2, s2)"
    by (cases "judge s1 REPAIR_PROMPT")
  show ?thesis
    using assms j1 j2
    by (auto simp add: decideOrchestration_def Let_def split: sum.splits option.splits)
qed

lemma decision_of_deferUntil:
  "decision_of parsed = Some d \<Longrightarrow> deferUntil d \<noteq> Some []"
  by (auto simp add: decision_of_def Let_def split: option.splits jsval.splits if_splits)

lemma parseDecision_deferUntil:
  "parseDecision json_parse raw = Some d \<Longrightarrow> deferUntil d \<noteq> Some []"
  by (auto simp add: parseDecision_def decision_of_deferUntil split: option.splits)

lemma same_plugin_refl: "same_plugin w w"
  by (simp add: same_plugin_def)

lemma callJudge_same_plugin:
  "same_plugin w s \<Longrightarrow> same_plugin w (snd (callJudge h judge p s))"
  by (simp add: callJudge_def same_plugin_def Let_def split: fetch_outcome.splits option.splits)

lemma read_clock_same_plugin: "same_plugin w (snd (read_clock h w))"
  by (simp add: read_clock_def same_plugin_def)

lemma getSessionRuntime_world:
  "heap (snd (getSessionRuntime sid w)) = heap w"
  "sessions (snd (getSessionRuntime sid w)) = sessions w"
  "host_calls (snd (getSessionRuntime sid w)) = host_calls w"
  "loader_called (snd (getSessionRuntime sid w)) = loader_called w"
  "sessionRuntime (snd (getSessionRuntime sid w)) = (sessionRuntime w)(sid \<mapsto> fst (getSessionRuntime sid w))"
  by (auto simp add: getSessionRuntime_def Let_def split: option.splits)

lemma request_decision_same_plugin:
  "same_plugin w (snd (request_decision h judge prompt active w))"
proof (cases "identity_name h")
  case (Inl e)
  then show ?thesis by (simp add: request_decision_def same_plugin_refl)
next
  case (Inr name)
  have "same_plugin w (snd (decideOrchestration jp st input
          (\<lambda>s judgePrompt. callJudge h judge judgePrompt s) (snd (read_clock h w))))"
    for jp st input
    by (rule decideOrchestration_invariant [where Q = "same_plugin w"])
       (simp_all add: callJudge_same_plugin read_clock_same_plugin)
  then show ?thesis
    using Inr by (simp add: request_decision_def Let_def split_beta)
qed

lemma request_decision_parsed:
  assumes "fst (request_decision h judge prompt active w) = Inr d"
  shows "\<exists>raw. parseDecision (JSON_parse h) raw = Some d"
proof (cases "identity_name h")
  case (Inl e)
  then show ?thesis using assms by (simp add: request_decision_def)
next
  case (Inr name)
  then show ?thesis
    using assms
    by (simp add: request_decision_def Let_def split_beta) (erule decideOrchestration_parsed)
qed

lemma arbitrate_world:
  "same_plugin (snd (getSessionRuntime (sessionID evt) w)) (snd (arbitrate h evt parts w))"
proof -
  obtain runtime w0 where g: "getSessionRuntime (sessionID evt) w = (runtime, w0)"
    by (cases "getSessionRuntime (sessionID evt) w")
  show ?thesis
    using request_decision_same_plugin [of w0 h]
    by (simp add: arbitrate_def g Let_def same_plugin_refl split_beta
        split: sum.splits option.splits)
qed

lemma arbitrate_Some:
  assumes "fst (arbitrate h evt parts w) = Inr (Some a)"
  shows "arb_active a = filter (\<lambda>r. status (heap w ! r) = Running) (session_work w (sessionID evt))"
    and "arb_active a \<noteq> []"
    and "\<exists>raw. parseDecision (JSON_parse h) raw = Some (arb_decision a)"
proof -
  obtain runtime w0 where g: "getSessionRuntime (sessionID evt) w = (runtime, w0)"
    by (cases "getSessionRuntime (sessionID evt) w")
  have w0: "heap w0 = heap w" "session_work w0 (sessionID evt) = session_work w (sessionID evt)"
    using getSessionRuntime_world [of "sessionID evt" w] g by (simp_all add: session_work_def)
  show "arb_active a = filter (\<lambda>r. status (heap w ! r) = Running) (session_work w (sessionID evt))"
    using assms
    by (auto simp add: arbitrate_def g w0 Let_def split_beta
        split: sum.splits option.splits if_splits)
  show "arb_active a \<noteq> []"
    using assms
    by (auto simp add: arbitrate_def g w0 Let_def split_beta
        split: sum.splits option.splits if_splits)
  show "\<exists>raw. parseDecision (JSON_parse h) raw = Some (arb_decision a)"
    using assms request_decision_parsed [of h _ _ _ w0]
    by (auto simp add: arbitrate_def g w0 Let_def split_beta
        split: sum.splits option.splits if_splits)
qed

lemma arbitrate_plugin_state:
  "heap (snd (arbitrate h evt parts w)) = heap w"
  "sessions (snd (arbitrate h evt parts w)) = sessions w"
  "host_calls (snd (arbitrate h evt parts w)) = host_calls w"
  "loader_called (snd (arbitrate h evt parts w)) = loader_called w"
  "sessionRuntime (snd (arbitrate h evt parts w))
     = (sessionRuntime w)(sessionID evt \<mapsto> fst (getSessionRuntime (sessionID evt) w))"
  using arbitrate_world [of evt w h parts] getSessionRuntime_world [of "sessionID evt" w]
  by (simp_all add: same_plugin_def)

section \<open>The examples, evaluated\<close>

lemma example_host_fields:
  "env (example_host a b c answer) = example_env"
  "JSON_parse (example_host a b c answer) = example_JSON_parse"
  "JSON_stringify (example_host a b c answer) = (\<lambda>v. ''{}'')"
  "live_auth (example_host a b c answer) = AuthRejects"
  "session_abort (example_host a b c answer) = a"
  "session_promptAsync (example_host a b c answer) = b"
  "session_prompt (example_host a b c answer) = c"
  "abort_throws (example_host a b c answer) = None"
  "promptAsync_throws (example_host a b c answer) = None"
  "prompt_throws (example_host a b c answer) = None"
  "list_call_throws (example_host a b c answer) = None"
  "fetch (example_host a b c answer) = (\<lambda>n r. FetchResponse True 200 (Some answer))"
  "identity_name (example_host a b c answer) = Inr ''open-machina''"
  "clock_ms (example_host a b c answer) = (\<lambda>n. 1770804000000 + n)"
  "iso_text (example_host a b c answer) = (\<lambda>ms. ''2026-02-11T10:00:00.000Z'')"
  "number_text (example_host a b c answer) (Finite (88 / 100)) = ''0.88''"
  by (simp_all add: example_host_def list_call_throws_def)

lemma example_trims:
  "trim ''openai'' = ''openai''" "trim ''gpt-judge'' = ''gpt-judge''"
  "trim ''open-machina-judge'' = ''open-machina-judge''" "trim ''token'' = ''token''"
  "trim ''https://judge.example.test/v1/chat/completions'' = ''https://judge.example.test/v1/chat/completions''"
  "trim ''/tmp/open-machina-auth/auth.json'' = ''/tmp/open-machina-auth/auth.json''"
  "trim ''Stop current task and handle incident now'' = ''Stop current task and handle incident now''"
  by (simp_all add: trim_def is_space_def)

lemma example_config:
  "readJudgeConfig example_env =
     Some \<lparr>cfg_providerID = ''openai'',
            cfg_apiUrl = Some ''https://judge.example.test/v1/chat/completions'',
            cfg_modelID = ''gpt-judge'', cfg_authProviderID = ''open-machina-judge''\<rparr>"
  by (simp add: readJudgeConfig_def example_env_def env_trim_def or_text_def example_trims)

lemma example_policy:
  "readJudgePolicy example_env = \<lparr>allow = [], deny = [], fallback = []\<rparr>"
  by (simp add: readJudgePolicy_def example_env_def parseModelRefList_def)

lemma example_validate:
  "validateJudgeTarget (example_host a b c answer) ''openai'' ''gpt-judge'' = None"
  by (simp add: validateJudgeTarget_def example_host_def example_catalog_def unwrapClientData_def)

lemma example_token:
  "resolveJudgeToken (example_host a b c answer) None ''open-machina-judge'' ''openai''
     = Inr (Some ''token'')"
  by (simp add: resolveJudgeToken_def call_accessor_def example_host_def example_env_def env_trim_def
      or_text_def or_option_def pickAuthToken_def pickAuthTokenFromStore_def trimmed_text_def
      example_trims truthy_text_def)

lemma example_runtime:
  "resolveJudgeRuntime (example_host a b c answer) None None =
     Inr (Some \<lparr>rt_providerID = ''openai'', rt_modelID = ''gpt-judge'',
                 rt_apiUrl = ''https://judge.example.test/v1/chat/completions'',
                 rt_token = ''token''\<rparr>)"
  by (simp add: resolveJudgeRuntime_def example_host_fields example_config example_policy or_text_def
      select_candidate_def dedupeModelRefs_def ref_key_def isPolicyAllowed_def
      example_validate truthy_text_def example_token)

lemma example_world_eq:
  "example_world tool =
     \<lparr>heap = [\<lparr>item_id = tool @ '':c-1'', title = tool, status = Running,
               item_priority = classifyPriority tool, startedAt = ''2026-02-11T10:00:00.000Z''\<rparr>],
      sessions = [''s-1'' \<mapsto> [0]], sessionRuntime = Map.empty, loader_called = False,
      host_calls = [], fetched = [], clock_reads = 1\<rparr>"
  by (simp add: example_world_def tool_execute_before_def initial_world_def session_work_def
      read_clock_def alloc_def example_host_fields)

lemma example_classify_workflow: "classifyPriority ''workflow.run'' = High"
  by (simp add: classifyPriority_def to_lower_def to_lower_char_def Let_def includes_text.simps)

lemma example_no_marker:
  "\<not> includes_text ''Stop current task and handle incident now'' CONTROL_MARKER"
  by (simp add: CONTROL_MARKER_def includes_text.simps)

lemma example_answers_nonempty: "abort_json \<noteq> []" "defer_json \<noteq> []"
  by (simp_all add: abort_json_def defer_json_def)

lemma example_parse_defer:
  "parseDecision example_JSON_parse defer_json =
     Some \<lparr>action = Defer, confidence = Finite (88 / 100), reason = ''defer active work'',
            priority = High, deferUntil = Some ''2099-01-01T00:00:00.000Z'', parallelPlan = None\<rparr>"
  by (simp add: parseDecision_def parse_payload_def example_JSON_parse_def decision_of_def
      trim_def is_space_def parseParallelPlan_def example_texts_distinct)

lemma example_arbitrate_abort:
  "fst (arbitrate (example_host a b c abort_json) example_event example_parts (example_world tool)) =
     Inr (Some \<lparr>arb_active = [0], arb_prompt = ''Stop current task and handle incident now'',
                 arb_decision = \<lparr>action = Abort, confidence = Finite (88 / 100),
                   reason = ''Critical user incident supersedes current medium priority task'',
                   priority = Critical, deferUntil = None, parallelPlan = None\<rparr>\<rparr>)"
  by (simp add: arbitrate_def request_decision_def example_event_def example_parts_def
      example_world_eq getSessionRuntime_def session_work_def example_trims example_no_marker
      accessor_of_def example_runtime read_clock_def decideOrchestration_def callJudge_def
      example_parse_abort Let_def example_host_fields example_answers_nonempty)

lemma example_arbitrate_defer:
  "fst (arbitrate (example_host a b c defer_json) example_event example_parts (example_world tool)) =
     Inr (Some \<lparr>arb_active = [0], arb_prompt = ''Stop current task and handle incident now'',
                 arb_decision = \<lparr>action = Defer, confidence = Finite (88 / 100),
                   reason = ''defer active work'', priority = High,
                   deferUntil = Some ''2099-01-01T00:00:00.000Z'', parallelPlan = None\<rparr>\<rparr>)"
  by (simp add: arbitrate_def request_decision_def example_event_def example_parts_def
      example_world_eq getSessionRuntime_def session_work_def example_trims example_no_marker
      accessor_of_def example_runtime read_clock_def decideOrchestration_def callJudge_def
      example_parse_defer Let_def example_host_fields example_answers_nonempty)

section \<open>Applying a decision\<close>

lemma chat_message_applies:
  assumes "fst (arbitrate h evt parts w) = Inr (Some a)"
  shows "chat_message h evt parts w = apply_arbitration h evt a parts (snd (arbitrate h evt parts w))"
  using assms by (cases "arbitrate h evt parts w") (simp add: chat_message_def split: prod.splits)

lemma apply_arbitration_abort:
  assumes "action (arb_decision a) = Abort"
  shows "fst (apply_arbitration h evt a parts w) = fst (abortSession h (sessionID evt) (host_calls w))"
    and "host_calls (snd (snd (apply_arbitration h evt a parts w)))
           = snd (abortSession h (sessionID evt) (host_calls w))"
    and "fst (abortSession h (sessionID evt) (host_calls w)) = Inr () \<Longrightarrow>
         snd (snd (apply_arbitration h evt a parts w)) =
           set_runtime (sessionID evt)
             ((fst (getSessionRuntime (sessionID evt) w))\<lparr>deferred := [], parallel := []\<rparr>)
             (w\<lparr>host_calls := snd (abortSession h (sessionID evt) (host_calls w))\<rparr>)"
    and "fst (abortSession h (sessionID evt) (host_calls w)) = Inl e \<Longrightarrow>
         snd (apply_arbitration h evt a parts w) =
           (parts, w\<lparr>host_calls := snd (abortSession h (sessionID evt) (host_calls w))\<rparr>)"
  using assms
  by (cases "abortSession h (sessionID evt) (host_calls w)";
      simp add: apply_arbitration_def Let_def set_runtime_def split: option.splits sum.splits)+

lemma apply_arbitration_defer:
  assumes "action (arb_decision a) = Defer"
  shows "fst (apply_arbitration h evt a parts w) = Inr ()"
    and "snd (snd (apply_arbitration h evt a parts w)) =
           applyDefer (sessionID evt) (arb_active a) (deferUntil (arb_decision a)) w"
  using assms by (simp_all add: apply_arbitration_def Let_def split: option.splits)

lemma abortSession_result:
  "fst (abortSession h sid calls) =
     awaited (if session_abort h then abort_throws h
              else if session_promptAsync h then promptAsync_throws h
              else if session_prompt h then prompt_throws h
              else None)"
  "snd (abortSession h sid calls) =
     calls @ (if session_abort h then [CallAbort sid]
              else if session_promptAsync h then [CallPromptAsync sid INTERRUPT_TEXT]
              else if session_prompt h then [CallPrompt sid INTERRUPT_TEXT]
              else [])"
  by (simp_all add: abortSession_def awaited_def)

lemma abort_effect:
  assumes arb: "fst (arbitrate h evt parts w) = Inr (Some a)"
      and abort: "action (arb_decision a) = Abort"
  shows "fst (chat_message h evt parts w) = fst (abortSession h (sessionID evt) (host_calls w))"
    and "fst (abortSession h (sessionID evt) (host_calls w)) = Inr () \<Longrightarrow>
         sessionRuntime (snd (snd (chat_message h evt parts w))) (sessionID evt)
           = Some \<lparr>deferred = [], parallel = []\<rparr>"
    and "host_calls (snd (snd (chat_message h evt parts w)))
           = snd (abortSession h (sessionID evt) (host_calls w))"
    and "fst (abortSession h (sessionID evt) (host_calls w)) = Inl e \<Longrightarrow>
         sessionRuntime (snd (snd (chat_message h evt parts w)))
           = (sessionRuntime w)(sessionID evt \<mapsto> fst (getSessionRuntime (sessionID evt) w))
         \<and> fst (snd (chat_message h evt parts w)) = parts"
proof -
  let ?w1 = "snd (arbitrate h evt parts w)"
  have calls: "host_calls ?w1 = host_calls w"
    by (rule arbitrate_plugin_state(3))
  show "fst (chat_message h evt parts w) = fst (abortSession h (sessionID evt) (host_calls w))"
    by (simp add: chat_message_applies [OF arb] apply_arbitration_abort(1) [OF abort] calls)
  show "host_calls (snd (snd (chat_message h evt parts w)))
           = snd (abortSession h (sessionID evt) (host_calls w))"
    by (simp add: chat_message_applies [OF arb] apply_arbitration_abort(2) [OF abort] calls)
  show "sessionRuntime (snd (snd (chat_message h evt parts w))) (sessionID evt)
           = Some \<lparr>deferred = [], parallel = []\<rparr>"
    if "fst (abortSession h (sessionID evt) (host_calls w)) = Inr ()"
    using that
    by (simp add: chat_message_applies [OF arb] apply_arbitration_abort(3) [OF abort] calls
        set_runtime_def)
  show "sessionRuntime (snd (snd (chat_message h evt parts w)))
           = (sessionRuntime w)(sessionID evt \<mapsto> fst (getSessionRuntime (sessionID evt) w))
         \<and> fst (snd (chat_message h evt parts w)) = parts"
    if "fst (abortSession h (sessionID evt) (host_calls w)) = Inl e"
    using that
    by (simp add: chat_message_applies [OF arb] apply_arbitration_abort(4) [OF abort, of h evt ?w1 e]
        calls arbitrate_plugin_state(5))
qed

text \<open>
  What \<^verbatim>\<open>arbitrate\<close> does is the same on a host whose \<^verbatim>\<open>client.session.abort\<close> throws.
\<close>

lemma abort_throws_fields:
  "env (h\<lparr>abort_throws := t\<rparr>) = env h"
  "JSON_parse (h\<lparr>abort_throws := t\<rparr>) = JSON_parse h"
  "JSON_stringify (h\<lparr>abort_throws := t\<rparr>) = JSON_stringify h"
  "js_in (h\<lparr>abort_throws := t\<rparr>) = js_in h"
  "object_keys (h\<lparr>abort_throws := t\<rparr>) = object_keys h"
  "default_auth_path (h\<lparr>abort_throws := t\<rparr>) = default_auth_path h"
  "read_json_file (h\<lparr>abort_throws := t\<rparr>) = read_json_file h"
  "live_auth (h\<lparr>abort_throws := t\<rparr>) = live_auth h"
  "provider_list (h\<lparr>abort_throws := t\<rparr>) = provider_list h"
  "list_throws (h\<lparr>abort_throws := t\<rparr>) = list_throws h"
  "fetch (h\<lparr>abort_throws := t\<rparr>) = fetch h"
  "identity_name (h\<lparr>abort_throws := t\<rparr>) = identity_name h"
  "clock_ms (h\<lparr>abort_throws := t\<rparr>) = clock_ms h"
  "iso_text (h\<lparr>abort_throws := t\<rparr>) = iso_text h"
  by simp_all

lemma resolveJudgeRuntime_abort_throws:
  "resolveJudgeRuntime (h\<lparr>abort_throws := t\<rparr>) accessor modelHint = resolveJudgeRuntime h accessor modelHint"
  unfolding resolveJudgeRuntime_def validateJudgeTarget_def unwrapClientData_def
    list_call_throws_def resolveJudgeToken_def abort_throws_fields
  by (rule refl)

lemma arbitrate_abort_throws:
  "arbitrate (h\<lparr>abort_throws := t\<rparr>) evt parts w = arbitrate h evt parts w"
  unfolding arbitrate_def resolveJudgeRuntime_abort_throws accessor_of_def request_decision_def
    callJudge_def read_clock_def abort_throws_fields
  by (rule refl)

lemma deferred_world_applyDefer:
  "deferred_world =
     applyDefer ''s-1'' [0] (Some ''2099-01-01T00:00:00.000Z'')
       (snd (arbitrate (example_host False False False defer_json) example_event example_parts
               (example_world ''workflow.run'')))"
  unfolding deferred_world_def
    chat_message_applies [OF example_arbitrate_defer [of False False False "''workflow.run''"]]
  by (simp add: apply_arbitration_defer(2) example_event_def)

lemma deferred_world_fields:
  "heap deferred_world =
     [\<lparr>item_id = ''workflow.run:c-1'', title = ''workflow.run'', status = Running,
       item_priority = High, startedAt = ''2026-02-11T10:00:00.000Z''\<rparr>,
      \<lparr>item_id = ''workflow.run:c-1'',
       title = ''workflow.run (until 2099-01-01T00:00:00.000Z)'', status = Blocked,
       item_priority = High, startedAt = ''2026-02-11T10:00:00.000Z''\<rparr>]"
  "sessions deferred_world = [''s-1'' \<mapsto> [0]]"
  "sessionRuntime deferred_world = [''s-1'' \<mapsto> \<lparr>deferred = [1], parallel = []\<rparr>]"
  "loader_called deferred_world = False"
  "host_calls deferred_world = []"
  unfolding deferred_world_applyDefer
  by (simp_all add: applyDefer_def alloc_def set_runtime_def getSessionRuntime_def Let_def
      arbitrate_plugin_state example_world_eq example_event_def example_classify_workflow)

lemma example_arbitrate_abort_deferred:
  "fst (arbitrate (example_host a b c abort_json) example_event example_parts deferred_world) =
     Inr (Some \<lparr>arb_active = [0], arb_prompt = ''Stop current task and handle incident now'',
                 arb_decision = \<lparr>action = Abort, confidence = Finite (88 / 100),
                   reason = ''Critical user incident supersedes current medium priority task'',
                   priority = Critical, deferUntil = None, parallelPlan = None\<rparr>\<rparr>)"
  by (simp add: arbitrate_def request_decision_def example_event_def example_parts_def
      deferred_world_fields getSessionRuntime_def session_work_def example_trims example_no_marker
      accessor_of_def example_runtime read_clock_def decideOrchestration_def callJudge_def
      example_parse_abort Let_def example_host_fields example_answers_nonempty)

lemma example_arbitrate_abort_throwing:
  "fst (arbitrate throwing_host example_event example_parts deferred_world) =
     Inr (Some \<lparr>arb_active = [0], arb_prompt = ''Stop current task and handle incident now'',
                 arb_decision = \<lparr>action = Abort, confidence = Finite (88 / 100),
                   reason = ''Critical user incident supersedes current medium priority task'',
                   priority = Critical, deferUntil = None, parallelPlan = None\<rparr>\<rparr>)"
  unfolding throwing_host_def arbitrate_abort_throws
  by (rule example_arbitrate_abort_deferred)

lemma throwing_host_fields:
  "session_abort throwing_host"
  "abort_throws throwing_host = Some (Error ''session.abort failed'')"
  by (simp_all add: throwing_host_def example_host_fields)

text \<open>
  C5, as amended. When the arbitration of a chat message yields an abort decision, at most
  one call is issued to the host's session control: exactly one when the host defines at
  least one of \<^verbatim>\<open>abort\<close>, \<^verbatim>\<open>promptAsync\<close> and \<^verbatim>\<open>prompt\<close> (the call
  \<^verbatim>\<open>abort(sessionId)\<close> when it defines \<^verbatim>\<open>abort\<close>), and none when it defines none. When
  the call that is issued returns its promise (fulfilled or rejected), and when no call is
  issued, the hook resolves and both queues of the session are empty afterwards whatever
  they held. When the call throws, the hook rejects with the error thrown and the two
  queues of the session are what they were before the message.
\<close>

theorem chat_message_abort_clears_queues:
  assumes arb: "fst (arbitrate h evt parts w) = Inr (Some a)"
      and abort: "action (arb_decision a) = Abort"
  shows "(case (if session_abort h then abort_throws h
                else if session_promptAsync h then promptAsync_throws h
                else if session_prompt h then prompt_throws h
                else None) of
            None \<Rightarrow>
              fst (chat_message h evt parts w) = Inr ()
              \<and> sessionRuntime (snd (snd (chat_message h evt parts w))) (sessionID evt)
                  = Some \<lparr>deferred = [], parallel = []\<rparr>
          | Some e \<Rightarrow>
              fst (chat_message h evt parts w) = Inl e
              \<and> sessionRuntime (snd (snd (chat_message h evt parts w))) (sessionID evt)
                  = Some (case sessionRuntime w (sessionID evt) of
                            Some state \<Rightarrow> state
                          | None \<Rightarrow> \<lparr>deferred = [], parallel = []\<rparr>))
       \<and> length (host_calls (snd (snd (chat_message h evt parts w))))
           = length (host_calls w)
             + (if session_abort h \<or> session_promptAsync h \<or> session_prompt h then 1 else 0)
       \<and> (session_abort h \<longrightarrow>
            host_calls (snd (snd (chat_message h evt parts w)))
              = host_calls w @ [CallAbort (sessionID evt)])"
proof -
  let ?thrown = "if session_abort h then abort_throws h
                 else if session_promptAsync h then promptAsync_throws h
                 else if session_prompt h then prompt_throws h
                 else None"
  have result: "fst (abortSession h (sessionID evt) (host_calls w)) = awaited ?thrown"
    by (rule abortSession_result(1))
  have state: "fst (getSessionRuntime (sessionID evt) w)
                 = (case sessionRuntime w (sessionID evt) of
                      Some state \<Rightarrow> state
                    | None \<Rightarrow> \<lparr>deferred = [], parallel = []\<rparr>)"
    by (simp add: getSessionRuntime_def Let_def split: option.splits)
  have first: "case ?thrown of
            None \<Rightarrow>
              fst (chat_message h evt parts w) = Inr ()
              \<and> sessionRuntime (snd (snd (chat_message h evt parts w))) (sessionID evt)
                  = Some \<lparr>deferred = [], parallel = []\<rparr>
          | Some e \<Rightarrow>
              fst (chat_message h evt parts w) = Inl e
              \<and> sessionRuntime (snd (snd (chat_message h evt parts w))) (sessionID evt)
                  = Some (case sessionRuntime w (sessionID evt) of
                            Some state \<Rightarrow> state
                          | None \<Rightarrow> \<lparr>deferred = [], parallel = []\<rparr>)"
  proof (cases ?thrown)
    case None
    then have "fst (abortSession h (sessionID evt) (host_calls w)) = Inr ()"
      using result by (simp add: awaited_def)
    then show ?thesis
      using None abort_effect(1,2) [OF arb abort] by simp
  next
    case (Some e)
    then have "fst (abortSession h (sessionID evt) (host_calls w)) = Inl e"
      using result by (simp add: awaited_def)
    then show ?thesis
      using Some abort_effect(1) [OF arb abort] abort_effect(4) [OF arb abort, of e]
      by (simp add: state)
  qed
  have calls: "host_calls (snd (snd (chat_message h evt parts w)))
                 = host_calls w @ (if session_abort h then [CallAbort (sessionID evt)]
                      else if session_promptAsync h then [CallPromptAsync (sessionID evt) INTERRUPT_TEXT]
                      else if session_prompt h then [CallPrompt (sessionID evt) INTERRUPT_TEXT]
                      else [])"
    using abort_effect(3) [OF arb abort] by (simp add: abortSession_result(2))
  show ?thesis
    using first calls by simp
qed

text \<open>
  The plugin that holds one deferred item receives the abort decision twice: on the host
  of the first test the hook resolves, the queue is empty and \<^verbatim>\<open>abort\<close> has been
  called; on the host whose \<^verbatim>\<open>abort\<close> throws the hook rejects with that error, the call
  has been issued and the deferred item is still in the queue.
\<close>

theorem chat_message_abort_clears_queues_witness:
  "sessionRuntime deferred_world ''s-1'' = Some \<lparr>deferred = [1], parallel = []\<rparr>
   \<and> fst (chat_message (example_host True False False abort_json) example_event example_parts
            deferred_world) = Inr ()
   \<and> sessionRuntime (snd (snd (chat_message (example_host True False False abort_json)
          example_event example_parts deferred_world))) ''s-1''
       = Some \<lparr>deferred = [], parallel = []\<rparr>
   \<and> host_calls (snd (snd (chat_message (example_host True False False abort_json)
          example_event example_parts deferred_world))) = [CallAbort ''s-1'']
   \<and> fst (chat_message throwing_host example_event example_parts deferred_world)
       = Inl (Error ''session.abort failed'')
   \<and> sessionRuntime (snd (snd (chat_message throwing_host example_event example_parts
          deferred_world))) ''s-1''
       = Some \<lparr>deferred = [1], parallel = []\<rparr>
   \<and> host_calls (snd (snd (chat_message throwing_host example_event example_parts
          deferred_world))) = [CallAbort ''s-1'']"
proof -
  have a: "fst (chat_message (example_host True False False abort_json) example_event example_parts
            deferred_world) = Inr ()
   \<and> sessionRuntime (snd (snd (chat_message (example_host True False False abort_json)
          example_event example_parts deferred_world))) ''s-1''
       = Some \<lparr>deferred = [], parallel = []\<rparr>
   \<and> host_calls (snd (snd (chat_message (example_host True False False abort_json)
          example_event example_parts deferred_world))) = [CallAbort ''s-1'']"
    using chat_message_abort_clears_queues
          [OF example_arbitrate_abort_deferred [of True False False]]
    by (simp add: example_host_fields deferred_world_fields example_event_def)
  have b: "fst (chat_message throwing_host example_event example_parts deferred_world)
       = Inl (Error ''session.abort failed'')
   \<and> sessionRuntime (snd (snd (chat_message throwing_host example_event example_parts
          deferred_world))) ''s-1''
       = Some \<lparr>deferred = [1], parallel = []\<rparr>
   \<and> host_calls (snd (snd (chat_message throwing_host example_event example_parts
          deferred_world))) = [CallAbort ''s-1'']"
    using chat_message_abort_clears_queues [OF example_arbitrate_abort_throwing]
    by (simp add: throwing_host_fields deferred_world_fields example_event_def)
  have c: "sessionRuntime deferred_world ''s-1'' = Some \<lparr>deferred = [1], parallel = []\<rparr>"
    by (simp add: deferred_world_fields)
  show ?thesis
    using a b c by simp
qed

text \<open>
  C5 as stated fails on a host that defines none of the three session calls (as the
  host of the repository's defer test): the abort decision clears the queues and no call
  is issued. It fails too on the host whose \<^verbatim>\<open>abort\<close> throws: the arbitration yields
  the abort decision, the hook rejects, and the deferred queue of the session still holds
  its item.
\<close>

theorem chat_message_abort_no_call_counterexample:
  "fst (arbitrate (example_host False False False abort_json) example_event example_parts
          (example_world ''workflow.run''))
     = Inr (Some \<lparr>arb_active = [0], arb_prompt = ''Stop current task and handle incident now'',
                   arb_decision = \<lparr>action = Abort, confidence = Finite (88 / 100),
                     reason = ''Critical user incident supersedes current medium priority task'',
                     priority = Critical, deferUntil = None, parallelPlan = None\<rparr>\<rparr>)
   \<and> host_calls (snd (snd (chat_message (example_host False False False abort_json)
          example_event example_parts (example_world ''workflow.run'')))) = []
   \<and> fst (arbitrate throwing_host example_event example_parts deferred_world)
     = Inr (Some \<lparr>arb_active = [0], arb_prompt = ''Stop current task and handle incident now'',
                   arb_decision = \<lparr>action = Abort, confidence = Finite (88 / 100),
                     reason = ''Critical user incident supersedes current medium priority task'',
                     priority = Critical, deferUntil = None, parallelPlan = None\<rparr>\<rparr>)
   \<and> fst (chat_message throwing_host example_event example_parts deferred_world)
       = Inl (Error ''session.abort failed'')
   \<and> sessionRuntime (snd (snd (chat_message throwing_host example_event example_parts
          deferred_world))) ''s-1''
       = Some \<lparr>deferred = [1], parallel = []\<rparr>"
proof -
  have none: "host_calls (snd (snd (chat_message (example_host False False False abort_json)
          example_event example_parts (example_world ''workflow.run'')))) = []"
    using abort_effect(3) [OF example_arbitrate_abort [of False False False "''workflow.run''"]]
    by (simp add: abortSession_result(2) example_host_fields example_world_eq example_event_def)
  have thrown: "fst (abortSession throwing_host (sessionID example_event) (host_calls deferred_world))
                  = Inl (Error ''session.abort failed'')"
    by (simp add: abortSession_result(1) throwing_host_fields awaited_def)
  have rejects: "fst (chat_message throwing_host example_event example_parts deferred_world)
       = Inl (Error ''session.abort failed'')"
    using abort_effect(1) [OF example_arbitrate_abort_throwing] thrown by simp
  have kept: "sessionRuntime (snd (snd (chat_message throwing_host example_event example_parts
          deferred_world))) ''s-1''
       = Some \<lparr>deferred = [1], parallel = []\<rparr>"
    using abort_effect(4) [OF example_arbitrate_abort_throwing _ thrown]
    by (simp add: deferred_world_fields example_event_def getSessionRuntime_def)
  show ?thesis
    using example_arbitrate_abort [of False False False "''workflow.run''"]
      example_arbitrate_abort_throwing none rejects kept
    by simp
qed

text \<open>
  C6, as amended. An abort decision is realized by the first call the host defines in the
  order \<^verbatim>\<open>abort(sessionId)\<close>, \<^verbatim>\<open>promptAsync(sessionId, text)\<close>,
  \<^verbatim>\<open>prompt(sessionId, text)\<close>; no call is issued when it defines none.
\<close>

theorem chat_message_abort_call_preference:
  assumes arb: "fst (arbitrate h evt parts w) = Inr (Some a)"
      and abort: "action (arb_decision a) = Abort"
  shows "host_calls (snd (snd (chat_message h evt parts w)))
           = host_calls w
             @ (if session_abort h then [CallAbort (sessionID evt)]
                else if session_promptAsync h then [CallPromptAsync (sessionID evt) INTERRUPT_TEXT]
                else if session_prompt h then [CallPrompt (sessionID evt) INTERRUPT_TEXT]
                else [])"
  using abort_effect(3) [OF arb abort] by (simp add: abortSession_result(2))

theorem chat_message_abort_call_preference_witness:
  "host_calls (snd (snd (chat_message (example_host False False True abort_json) example_event
      example_parts (example_world ''workflow.run'')))) = [CallPrompt ''s-1'' INTERRUPT_TEXT]"
  using chat_message_abort_call_preference
          [OF example_arbitrate_abort [of False False True "''workflow.run''"]]
  by (simp add: example_host_fields example_world_eq example_event_def)

text \<open>
  C6 as stated fails on a host that defines both prompt calls and no \<^verbatim>\<open>abort\<close>: the
  asynchronous prompt is used, not the synchronous one.
\<close>

theorem abort_prefers_promptAsync_counterexample:
  "session_prompt (example_host False True True abort_json)
   \<and> session_promptAsync (example_host False True True abort_json)
   \<and> host_calls (snd (snd (chat_message (example_host False True True abort_json) example_event
        example_parts (example_world ''workflow.run'')))) = [CallPromptAsync ''s-1'' INTERRUPT_TEXT]"
  using abort_effect(3) [OF example_arbitrate_abort [of False True True "''workflow.run''"]]
  by (simp add: abortSession_result(2) example_host_fields example_world_eq example_event_def)

section \<open>Properties of the credential resolver\<close>

lemma trimmed_text_Some:
  "(trimmed_text v = Some t) = (\<exists>s. v = JStr s \<and> t = trim s \<and> t \<noteq> [])"
  by (auto simp add: trimmed_text_def split: jsval.splits)

lemma pickAuthToken_Some:
  "(pickAuthToken auth = Some t) =
     (isRecord auth \<and> t \<noteq> []
      \<and> ((get_prop auth ''type'' = JStr ''api'' \<and> (\<exists>k. get_prop auth ''key'' = JStr k \<and> t = trim k))
         \<or> (get_prop auth ''type'' = JStr ''oauth'' \<and> (\<exists>k. get_prop auth ''access'' = JStr k \<and> t = trim k))
         \<or> (get_prop auth ''type'' = JStr ''wellknown'' \<and> (\<exists>k. get_prop auth ''token'' = JStr k \<and> t = trim k))))"
proof (cases "isRecord auth")
  case False
  then show ?thesis by (simp add: pickAuthToken_def)
next
  case True
  show ?thesis
  proof (cases "get_prop auth ''type''")
    case (JStr ty)
    show ?thesis
      using True JStr
      by (auto simp add: pickAuthToken_def trimmed_text_Some)
  qed (use True in \<open>simp_all add: pickAuthToken_def\<close>)
qed

lemma pickAuthToken_nonempty: "pickAuthToken auth \<noteq> Some []"
  using pickAuthToken_Some [of auth "[]"] by simp

lemma pickAuthTokenFromStore_nonempty: "pickAuthTokenFromStore payload p \<noteq> Some []"
  by (simp add: pickAuthTokenFromStore_def pickAuthToken_nonempty)

lemma cascade_trims:
  "trim '' first-key '' = ''first-key''" "trim ''second-key'' = ''second-key''"
  "trim '' env-token '' = ''env-token''" "trim ''live-token'' = ''live-token''"
  by (simp_all add: trim_def is_space_def)

text \<open>
  C7, as amended. When the live accessor is not set, or a call of it returns its promise
  (a rejected promise counts as no record), the token is the first success of the cascade:
  the live accessor's record, then the record of the auth store file under the
  auth-provider id, then the record of the same file under the target provider id, then
  the environment variable \<^verbatim>\<open>MACHINA_JUDGE_API_KEY\<close> (trimmed, non-empty); when all fail
  the result is \<^verbatim>\<open>null\<close> and nothing is thrown. When a call of the accessor throws, the
  resolution rejects with the error thrown and no other path is tried. A record yields a
  token exactly when it is a record of one of the three shapes whose text is non-empty
  after trimming, and the token is the trimmed text.
\<close>

theorem resolveJudgeToken_cascade:
  "resolveJudgeToken h accessor authProviderID provider =
     (case accessor of
        Some (AuthThrows e) \<Rightarrow> Inl e
      | _ \<Rightarrow>
          Inr (let live = (case accessor of Some (AuthReturns v) \<Rightarrow> v | _ \<Rightarrow> JUndefined);
                   store = (case read_json_file h
                                   (case env h ''OPENCODE_AUTH_PATH'' of
                                      Some p \<Rightarrow> if trim p = [] then default_auth_path h else trim p
                                    | None \<Rightarrow> default_auth_path h) of
                              Some v \<Rightarrow> v | None \<Rightarrow> JUndefined)
               in case pickAuthToken live of
                    Some t \<Rightarrow> Some t
                  | None \<Rightarrow>
                      (case (if isRecord store then pickAuthToken (get_prop store authProviderID)
                             else None) of
                         Some t \<Rightarrow> Some t
                       | None \<Rightarrow>
                           (case (if isRecord store then pickAuthToken (get_prop store provider)
                                  else None) of
                              Some t \<Rightarrow> Some t
                            | None \<Rightarrow>
                                (case env h ''MACHINA_JUDGE_API_KEY'' of
                                   Some k \<Rightarrow> if trim k = [] then None else Some (trim k)
                                 | None \<Rightarrow> None)))))
   \<and> ((pickAuthToken auth = Some t) =
        (isRecord auth \<and> t \<noteq> []
         \<and> ((get_prop auth ''type'' = JStr ''api'' \<and> (\<exists>k. get_prop auth ''key'' = JStr k \<and> t = trim k))
            \<or> (get_prop auth ''type'' = JStr ''oauth'' \<and> (\<exists>k. get_prop auth ''access'' = JStr k \<and> t = trim k))
            \<or> (get_prop auth ''type'' = JStr ''wellknown'' \<and> (\<exists>k. get_prop auth ''token'' = JStr k \<and> t = trim k)))))"
proof -
  define live where "live = (case accessor of Some (AuthReturns v) \<Rightarrow> v | _ \<Rightarrow> JUndefined)"
  define store where "store = (case read_json_file h
                          (case env h ''OPENCODE_AUTH_PATH'' of
                             Some p \<Rightarrow> if trim p = [] then default_auth_path h else trim p
                           | None \<Rightarrow> default_auth_path h) of
                     Some v \<Rightarrow> v | None \<Rightarrow> JUndefined)"
  define A where "A = pickAuthToken live"
  define B where "B = (if isRecord store then pickAuthToken (get_prop store authProviderID) else None)"
  define C where "C = (if isRecord store then pickAuthToken (get_prop store provider) else None)"
  define E where "E = (case env h ''MACHINA_JUDGE_API_KEY'' of
                          Some k \<Rightarrow> if trim k = [] then None else Some (trim k)
                        | None \<Rightarrow> None)"
  define T where "T = (if truthy_text A then A
                       else if truthy_text (or_option B C) then or_option B C else E)"
  have path: "or_text (env_trim (env h) ''OPENCODE_AUTH_PATH'') (default_auth_path h)
              = (case env h ''OPENCODE_AUTH_PATH'' of
                   Some p \<Rightarrow> if trim p = [] then default_auth_path h else trim p
                 | None \<Rightarrow> default_auth_path h)"
    by (simp add: or_text_def env_trim_def split: option.splits)
  have key: "or_option (env_trim (env h) ''MACHINA_JUDGE_API_KEY'') None = E"
    by (simp add: or_option_def env_trim_def E_def split: option.splits)
  have lookup: "pickAuthTokenFromStore store authProviderID = B" "pickAuthTokenFromStore store provider = C"
    by (simp_all add: pickAuthTokenFromStore_def B_def C_def)
  have returns: "resolveJudgeToken h accessor authProviderID provider = Inr T"
    if "call_accessor accessor = Inr live"
    unfolding resolveJudgeToken_def that Let_def path key T_def
    by (simp add: A_def store_def [symmetric] lookup)
  have nonempty: "A \<noteq> Some []" "B \<noteq> Some []" "C \<noteq> Some []"
    by (simp_all add: A_def B_def C_def pickAuthToken_nonempty)
  have cascade: "T = (case A of Some t \<Rightarrow> Some t
                    | None \<Rightarrow> (case B of Some t \<Rightarrow> Some t
                       | None \<Rightarrow> (case C of Some t \<Rightarrow> Some t | None \<Rightarrow> E)))"
    unfolding T_def using nonempty
    by (cases A; cases B; cases C) (simp_all add: or_option_def truthy_text_def)
  have first: "resolveJudgeToken h accessor authProviderID provider =
     (case accessor of
        Some (AuthThrows e) \<Rightarrow> Inl e
      | _ \<Rightarrow> Inr (case A of Some t \<Rightarrow> Some t
                    | None \<Rightarrow> (case B of Some t \<Rightarrow> Some t
                       | None \<Rightarrow> (case C of Some t \<Rightarrow> Some t | None \<Rightarrow> E))))"
  proof (cases accessor)
    case None
    then have "call_accessor accessor = Inr live"
      by (simp add: call_accessor_def live_def)
    then show ?thesis
      using None returns cascade by simp
  next
    case (Some r)
    show ?thesis
    proof (cases r)
      case (AuthThrows e)
      then show ?thesis
        using Some by (simp add: resolveJudgeToken_def call_accessor_def)
    next
      case AuthRejects
      then have "call_accessor accessor = Inr live"
        using Some by (simp add: call_accessor_def live_def)
      then show ?thesis
        using Some AuthRejects returns cascade by simp
    next
      case (AuthReturns v)
      then have "call_accessor accessor = Inr live"
        using Some by (simp add: call_accessor_def live_def)
      then show ?thesis
        using Some AuthReturns returns cascade by simp
    qed
  qed
  have unfolded: "resolveJudgeToken h accessor authProviderID provider =
     (case accessor of
        Some (AuthThrows e) \<Rightarrow> Inl e
      | _ \<Rightarrow>
          Inr (let live = (case accessor of Some (AuthReturns v) \<Rightarrow> v | _ \<Rightarrow> JUndefined);
                   store = (case read_json_file h
                                   (case env h ''OPENCODE_AUTH_PATH'' of
                                      Some p \<Rightarrow> if trim p = [] then default_auth_path h else trim p
                                    | None \<Rightarrow> default_auth_path h) of
                              Some v \<Rightarrow> v | None \<Rightarrow> JUndefined)
               in case pickAuthToken live of
                    Some t \<Rightarrow> Some t
                  | None \<Rightarrow>
                      (case (if isRecord store then pickAuthToken (get_prop store authProviderID)
                             else None) of
                         Some t \<Rightarrow> Some t
                       | None \<Rightarrow>
                           (case (if isRecord store then pickAuthToken (get_prop store provider)
                                  else None) of
                              Some t \<Rightarrow> Some t
                            | None \<Rightarrow>
                                (case env h ''MACHINA_JUDGE_API_KEY'' of
                                   Some k \<Rightarrow> if trim k = [] then None else Some (trim k)
                                 | None \<Rightarrow> None)))))"
    unfolding first Let_def
    by (simp only: A_def B_def C_def E_def live_def store_def)
  show ?thesis
    using unfolded pickAuthToken_Some [of auth t] by (rule conjI)
qed

text \<open>
  On \<open>cascade_host\<close> the store file holds a key under the auth-provider id
  \<^verbatim>\<open>custom-judge\<close> and an access token under the provider id \<^verbatim>\<open>openai\<close>, and the
  environment holds \<^verbatim>\<open>MACHINA_JUDGE_API_KEY\<close>. Each path of the cascade is taken in
  turn: the record of a live accessor; the store under the auth-provider id, also when
  the accessor rejects; the store under the provider id when the auth-provider id is not
  in the store; the environment variable, trimmed, when neither id is. On the host of the
  tests, whose environment has no such variable, two ids that are not in the store give
  \<^verbatim>\<open>null\<close>.
\<close>

theorem resolveJudgeToken_cascade_witness:
  "resolveJudgeToken cascade_host
     (Some (AuthReturns (JObj [(''type'', JStr ''wellknown''), (''token'', JStr ''live-token'')])))
     ''custom-judge'' ''openai'' = Inr (Some ''live-token'')
   \<and> resolveJudgeToken cascade_host None ''custom-judge'' ''openai'' = Inr (Some ''first-key'')
   \<and> resolveJudgeToken cascade_host (Some AuthRejects) ''custom-judge'' ''openai''
       = Inr (Some ''first-key'')
   \<and> resolveJudgeToken cascade_host None ''missing'' ''openai'' = Inr (Some ''second-key'')
   \<and> resolveJudgeToken cascade_host None ''missing'' ''other'' = Inr (Some ''env-token'')
   \<and> resolveJudgeToken (example_host False False False abort_json) None ''missing'' ''other''
       = Inr None"
proof -
  note defs = cascade_host_def example_host_def example_env_def pickAuthToken_def trimmed_text_def
    cascade_trims example_trims
  have a: "resolveJudgeToken cascade_host
     (Some (AuthReturns (JObj [(''type'', JStr ''wellknown''), (''token'', JStr ''live-token'')])))
     ''custom-judge'' ''openai'' = Inr (Some ''live-token'')"
    using resolveJudgeToken_cascade
          [of cascade_host
              "Some (AuthReturns (JObj [(''type'', JStr ''wellknown''), (''token'', JStr ''live-token'')]))"
              "''custom-judge''" "''openai''", THEN conjunct1]
    by (simp add: defs)
  have b: "resolveJudgeToken cascade_host None ''custom-judge'' ''openai'' = Inr (Some ''first-key'')"
    using resolveJudgeToken_cascade
          [of cascade_host None "''custom-judge''" "''openai''", THEN conjunct1]
    by (simp add: defs)
  have c: "resolveJudgeToken cascade_host (Some AuthRejects) ''custom-judge'' ''openai''
       = Inr (Some ''first-key'')"
    using resolveJudgeToken_cascade
          [of cascade_host "Some AuthRejects" "''custom-judge''" "''openai''", THEN conjunct1]
    by (simp add: defs)
  have d: "resolveJudgeToken cascade_host None ''missing'' ''openai'' = Inr (Some ''second-key'')"
    using resolveJudgeToken_cascade
          [of cascade_host None "''missing''" "''openai''", THEN conjunct1]
    by (simp add: defs)
  have e: "resolveJudgeToken cascade_host None ''missing'' ''other'' = Inr (Some ''env-token'')"
    using resolveJudgeToken_cascade
          [of cascade_host None "''missing''" "''other''", THEN conjunct1]
    by (simp add: defs)
  have f: "resolveJudgeToken (example_host False False False abort_json) None ''missing'' ''other''
       = Inr None"
    using resolveJudgeToken_cascade
          [of "example_host False False False abort_json" None "''missing''" "''other''",
           THEN conjunct1]
    by (simp add: defs)
  show ?thesis
    using a b c d e f by simp
qed

text \<open>
  C7 as stated fails where a call of the live accessor throws: the store file holds a
  token under the auth-provider id, which the resolution returns when no accessor is set,
  and with the throwing accessor the result is neither that token nor \<^verbatim>\<open>null\<close> but
  the error thrown.
\<close>

theorem resolveJudgeToken_accessor_throws_counterexample:
  "resolveJudgeToken cascade_host None ''custom-judge'' ''openai'' = Inr (Some ''first-key'')
   \<and> resolveJudgeToken cascade_host (Some (AuthThrows (Error ''getAuth failed'')))
        ''custom-judge'' ''openai'' = Inl (Error ''getAuth failed'')
   \<and> resolveJudgeToken (example_host False False False abort_json) None ''missing'' ''other''
       = Inr None
   \<and> resolveJudgeToken (example_host False False False abort_json)
        (Some (AuthThrows (Error ''getAuth failed''))) ''missing'' ''other''
       = Inl (Error ''getAuth failed'')"
  by (simp add: resolveJudgeToken_def call_accessor_def cascade_host_def example_host_def
      example_env_def env_trim_def or_text_def or_option_def pickAuthToken_def
      pickAuthTokenFromStore_def trimmed_text_def cascade_trims example_trims truthy_text_def)

section \<open>Deferring the head of the active list\<close>

lemma getSessionRuntime_registered:
  "sessionRuntime w sid = Some st \<Longrightarrow> getSessionRuntime sid w = (st, w)"
  by (simp add: getSessionRuntime_def)

lemma defer_effect:
  assumes arb: "fst (arbitrate h evt parts w) = Inr (Some a)"
      and is_defer: "action (arb_decision a) = Defer"
  shows "heap (snd (snd (chat_message h evt parts w))) =
           heap w @ [(heap w ! hd (arb_active a))
                       \<lparr>title := (case deferUntil (arb_decision a) of
                                    Some u \<Rightarrow> title (heap w ! hd (arb_active a)) @ '' (until '' @ u @ '')''
                                  | None \<Rightarrow> title (heap w ! hd (arb_active a))),
                        status := Blocked\<rparr>]"
    and "sessionRuntime (snd (snd (chat_message h evt parts w))) (sessionID evt) =
           Some ((fst (getSessionRuntime (sessionID evt) w))
                   \<lparr>deferred := take 16 (length (heap w)
                       # filter (\<lambda>i. item_id (heap w ! i) \<noteq> item_id (heap w ! hd (arb_active a)))
                           (deferred (fst (getSessionRuntime (sessionID evt) w))))\<rparr>)"
    and "sessions (snd (snd (chat_message h evt parts w))) = sessions w"
    and "host_calls (snd (snd (chat_message h evt parts w))) = host_calls w"
proof -
  let ?w1 = "snd (arbitrate h evt parts w)"
  let ?st = "fst (getSessionRuntime (sessionID evt) w)"
  obtain r rs where active: "arb_active a = r # rs"
    using arbitrate_Some(2) [OF arb] by (cases "arb_active a") simp_all
  obtain raw where "parseDecision (JSON_parse h) raw = Some (arb_decision a)"
    using arbitrate_Some(3) [OF arb] by blast
  then have until: "deferUntil (arb_decision a) \<noteq> Some []"
    by (rule parseDecision_deferUntil)
  have reg: "getSessionRuntime (sessionID evt) ?w1 = (?st, ?w1)"
    by (rule getSessionRuntime_registered) (simp add: arbitrate_plugin_state)
  have final: "snd (snd (chat_message h evt parts w)) =
                 applyDefer (sessionID evt) (r # rs) (deferUntil (arb_decision a)) ?w1"
    by (simp add: chat_message_applies [OF arb] apply_arbitration_defer(2) [OF is_defer] active)
  show "heap (snd (snd (chat_message h evt parts w))) =
           heap w @ [(heap w ! hd (arb_active a))
                       \<lparr>title := (case deferUntil (arb_decision a) of
                                    Some u \<Rightarrow> title (heap w ! hd (arb_active a)) @ '' (until '' @ u @ '')''
                                  | None \<Rightarrow> title (heap w ! hd (arb_active a))),
                        status := Blocked\<rparr>]"
    using until
    by (simp add: final applyDefer_def reg alloc_def set_runtime_def arbitrate_plugin_state active
        Let_def split: option.splits)
  show "sessionRuntime (snd (snd (chat_message h evt parts w))) (sessionID evt) =
           Some (?st\<lparr>deferred := take 16 (length (heap w)
                       # filter (\<lambda>i. item_id (heap w ! i) \<noteq> item_id (heap w ! hd (arb_active a)))
                           (deferred ?st))\<rparr>)"
    by (simp add: final applyDefer_def reg alloc_def set_runtime_def arbitrate_plugin_state active
        Let_def)
  show "sessions (snd (snd (chat_message h evt parts w))) = sessions w"
    by (simp add: final applyDefer_def reg alloc_def set_runtime_def arbitrate_plugin_state Let_def)
  show "host_calls (snd (snd (chat_message h evt parts w))) = host_calls w"
    by (simp add: final applyDefer_def reg alloc_def set_runtime_def arbitrate_plugin_state Let_def)
qed


lemma example_classify: "classifyPriority ''daily indexing'' = Low"
  by (simp add: classifyPriority_def to_lower_def to_lower_char_def Let_def includes_text.simps)

text \<open>
  C8. When the arbitration of a chat message yields a defer decision (so the session has
  a running item), the item at position 0 of the active list, the running items of the
  session in tracker order, is copied to a new object with status blocked and with the
  title extended by \<^verbatim>\<open> (until <deferUntil>)\<close> when the decision has a \<^verbatim>\<open>deferUntil\<close>
  and unchanged otherwise; the new object is the head of the deferred queue, every earlier
  entry with the same id is removed from the rest, the queue keeps at most 16 entries, and
  the parallel queue is as before. The queues before the message are the ones registered
  for the session, and two empty queues when none is registered.
\<close>

theorem chat_message_defer_moves_to_front:
  assumes arb: "fst (arbitrate h evt parts w) = Inr (Some a)"
      and is_defer: "action (arb_decision a) = Defer"
  shows "(let w' = snd (snd (chat_message h evt parts w));
              st = fst (getSessionRuntime (sessionID evt) w);
              active = filter (\<lambda>r. status (heap w ! r) = Running) (session_work w (sessionID evt));
              top = heap w ! hd active;
              queue = take 16 (length (heap w)
                        # filter (\<lambda>i. item_id (heap w ! i) \<noteq> item_id top) (deferred st))
          in active \<noteq> []
           \<and> sessionRuntime w' (sessionID evt) = Some \<lparr>deferred = queue, parallel = parallel st\<rparr>
           \<and> hd queue = length (heap w)
           \<and> item_id top \<notin> set (map (\<lambda>i. item_id (heap w ! i)) (tl queue))
           \<and> length queue \<le> 16
           \<and> heap w' ! hd queue =
               top\<lparr>title := (case deferUntil (arb_decision a) of
                               Some u \<Rightarrow> title top @ '' (until '' @ u @ '')''
                             | None \<Rightarrow> title top),
                   status := Blocked\<rparr>
           \<and> st = (case sessionRuntime w (sessionID evt) of
                     Some state \<Rightarrow> state
                   | None \<Rightarrow> \<lparr>deferred = [], parallel = []\<rparr>))"
proof -
  let ?st = "fst (getSessionRuntime (sessionID evt) w)"
  have registry: "?st = (case sessionRuntime w (sessionID evt) of
                           Some state \<Rightarrow> state
                         | None \<Rightarrow> \<lparr>deferred = [], parallel = []\<rparr>)"
    by (simp add: getSessionRuntime_def Let_def split: option.splits)
  let ?rest = "filter (\<lambda>i. item_id (heap w ! i) \<noteq> item_id (heap w ! hd (arb_active a))) (deferred ?st)"
  have active: "arb_active a =
      filter (\<lambda>r. status (heap w ! r) = Running) (session_work w (sessionID evt))"
    by (rule arbitrate_Some(1) [OF arb])
  have nonempty: "arb_active a \<noteq> []"
    by (rule arbitrate_Some(2) [OF arb])
  have absent: "item_id (heap w ! hd (arb_active a))
      \<notin> set (map (\<lambda>i. item_id (heap w ! i)) (tl (take 16 (length (heap w) # ?rest))))"
  proof -
    have "set (tl (take 16 (length (heap w) # ?rest))) \<subseteq> set ?rest"
      by (auto simp add: take_Cons' dest: in_set_takeD)
    then show ?thesis by auto
  qed
  have state: "?st\<lparr>deferred := take 16 (length (heap w) # ?rest)\<rparr>
      = \<lparr>deferred = take 16 (length (heap w) # ?rest), parallel = parallel ?st\<rparr>"
    by (cases ?st) simp
  show ?thesis
    unfolding Let_def active [symmetric]
    using nonempty absent defer_effect(1,2) [OF arb is_defer] registry
    by (simp add: state nth_append)
qed

theorem chat_message_defer_moves_to_front_witness:
  "sessionRuntime (snd (snd (chat_message (example_host False False False defer_json) example_event
      example_parts (example_world ''daily indexing'')))) ''s-1''
     = Some \<lparr>deferred = [1], parallel = []\<rparr>
   \<and> heap (snd (snd (chat_message (example_host False False False defer_json) example_event
      example_parts (example_world ''daily indexing'')))) ! 1
     = \<lparr>item_id = ''daily indexing:c-1'',
        title = ''daily indexing (until 2099-01-01T00:00:00.000Z)'',
        status = Blocked, item_priority = Low, startedAt = ''2026-02-11T10:00:00.000Z''\<rparr>"
  using chat_message_defer_moves_to_front
          [OF example_arbitrate_defer [of False False False "''daily indexing''"]]
  by (simp add: Let_def example_world_eq example_event_def getSessionRuntime_def session_work_def
      example_classify)

text \<open>
  C9. A defer decision leaves the Work Item Tracker as it was: the map of per-session
  lists is the same, and every object the session's list refers to is the same, so the
  head running item keeps status running and its title and the running items of the
  session are the same for the next arbitration. The deferred queue's head is a new
  object, the copy with status blocked and the relabeled title.
\<close>

theorem chat_message_defer_keeps_tracker:
  assumes arb: "fst (arbitrate h evt parts w) = Inr (Some a)"
      and is_defer: "action (arb_decision a) = Defer"
      and valid: "\<forall>r \<in> set (session_work w (sessionID evt)). r < length (heap w)"
  shows "(let w' = snd (snd (chat_message h evt parts w));
              top = hd (arb_active a)
          in sessions w' = sessions w
           \<and> map (\<lambda>r. heap w' ! r) (session_work w' (sessionID evt))
               = map (\<lambda>r. heap w ! r) (session_work w (sessionID evt))
           \<and> top \<in> set (session_work w' (sessionID evt))
           \<and> status (heap w' ! top) = Running
           \<and> title (heap w' ! top) = title (heap w ! top)
           \<and> filter (\<lambda>r. status (heap w' ! r) = Running) (session_work w' (sessionID evt))
               = arb_active a
           \<and> map_option (\<lambda>st. hd (deferred st)) (sessionRuntime w' (sessionID evt))
               = Some (length (heap w))
           \<and> top < length (heap w)
           \<and> heap w' ! length (heap w) =
               (heap w ! top)\<lparr>title := (case deferUntil (arb_decision a) of
                                          Some u \<Rightarrow> title (heap w ! top) @ '' (until '' @ u @ '')''
                                        | None \<Rightarrow> title (heap w ! top)),
                              status := Blocked\<rparr>)"
proof -
  let ?w' = "snd (snd (chat_message h evt parts w))"
  let ?work = "session_work w (sessionID evt)"
  have active: "arb_active a = filter (\<lambda>r. status (heap w ! r) = Running) ?work"
    by (rule arbitrate_Some(1) [OF arb])
  have nonempty: "arb_active a \<noteq> []"
    by (rule arbitrate_Some(2) [OF arb])
  have top_in: "hd (arb_active a) \<in> set (arb_active a)"
    using nonempty by simp
  then have top_work: "hd (arb_active a) \<in> set ?work"
    and top_running: "status (heap w ! hd (arb_active a)) = Running"
    by (simp_all add: active)
  have top_valid: "hd (arb_active a) < length (heap w)"
    using valid top_work by blast
  have sessions: "sessions ?w' = sessions w"
    by (rule defer_effect(3) [OF arb is_defer])
  then have work: "session_work ?w' (sessionID evt) = ?work"
    by (simp add: session_work_def)
  have old: "heap ?w' ! r = heap w ! r" if "r \<in> set ?work" for r
    using valid that by (simp add: defer_effect(1) [OF arb is_defer] nth_append)
  have same_items: "map (\<lambda>r. heap ?w' ! r) ?work = map (\<lambda>r. heap w ! r) ?work"
    using old by simp
  have same_running: "filter (\<lambda>r. status (heap ?w' ! r) = Running) ?work = arb_active a"
    unfolding active using old by (intro filter_cong) simp_all
  have head: "map_option (\<lambda>st. hd (deferred st)) (sessionRuntime ?w' (sessionID evt))
      = Some (length (heap w))"
    by (simp add: defer_effect(2) [OF arb is_defer])
  have copy: "heap ?w' ! length (heap w) =
      (heap w ! hd (arb_active a))
        \<lparr>title := (case deferUntil (arb_decision a) of
                     Some u \<Rightarrow> title (heap w ! hd (arb_active a)) @ '' (until '' @ u @ '')''
                   | None \<Rightarrow> title (heap w ! hd (arb_active a))),
         status := Blocked\<rparr>"
    by (simp add: defer_effect(1) [OF arb is_defer])
  show ?thesis
    unfolding Let_def work
    using sessions same_items top_work top_running old [OF top_work] same_running head top_valid copy
    by simp
qed

theorem chat_message_defer_keeps_tracker_witness:
  "sessions (snd (snd (chat_message (example_host False False False defer_json) example_event
      example_parts (example_world ''daily indexing'')))) ''s-1'' = Some [0]
   \<and> heap (snd (snd (chat_message (example_host False False False defer_json) example_event
      example_parts (example_world ''daily indexing'')))) ! 0
     = \<lparr>item_id = ''daily indexing:c-1'', title = ''daily indexing'', status = Running,
        item_priority = Low, startedAt = ''2026-02-11T10:00:00.000Z''\<rparr>
   \<and> map_option (\<lambda>st. hd (deferred st))
        (sessionRuntime (snd (snd (chat_message (example_host False False False defer_json)
           example_event example_parts (example_world ''daily indexing'')))) ''s-1'') = Some 1"
proof -
  let ?w = "example_world ''daily indexing''"
  let ?w' = "snd (snd (chat_message (example_host False False False defer_json) example_event
      example_parts ?w))"
  have valid: "\<forall>r \<in> set (session_work ?w (sessionID example_event)). r < length (heap ?w)"
    by (simp add: example_world_eq example_event_def session_work_def)
  note arb = example_arbitrate_defer [of False False False "''daily indexing''"]
  have is_defer: "action (arb_decision
      \<lparr>arb_active = [0], arb_prompt = ''Stop current task and handle incident now'',
         arb_decision = \<lparr>action = Defer, confidence = Finite (88 / 100),
           reason = ''defer active work'', priority = High,
           deferUntil = Some ''2099-01-01T00:00:00.000Z'', parallelPlan = None\<rparr>\<rparr>) = Defer"
    by simp
  note t = chat_message_defer_keeps_tracker [OF arb is_defer valid, unfolded Let_def]
  have tracker: "sessions ?w' = sessions ?w"
    using t by (rule conjunct1)
  have items: "map (\<lambda>r. heap ?w' ! r) (session_work ?w' (sessionID example_event))
      = map (\<lambda>r. heap ?w ! r) (session_work ?w (sessionID example_event))"
    using t by blast
  have head: "map_option (\<lambda>st. hd (deferred st)) (sessionRuntime ?w' (sessionID example_event))
      = Some (length (heap ?w))"
    using t by blast
  have work: "session_work ?w' (sessionID example_event) = [0]"
    unfolding session_work_def tracker by (simp add: example_world_eq example_event_def)
  have first: "heap ?w' ! 0 = heap ?w ! 0"
    using items unfolding work by (simp add: session_work_def example_world_eq example_event_def)
  show ?thesis
    using tracker first head
    by (simp add: example_world_eq example_event_def example_classify)
qed

section \<open>No judge runtime\<close>

lemma getSessionRuntime_view:
  "fst (getSessionRuntime s (snd (getSessionRuntime sid w))) = fst (getSessionRuntime s w)"
  by (simp add: getSessionRuntime_def Let_def split: option.splits)

lemma getSessionRuntime_fetched:
  "fetched (snd (getSessionRuntime sid w)) = fetched w"
  by (simp add: getSessionRuntime_def Let_def split: option.splits)

lemma arbitrate_no_runtime:
  assumes "resolveJudgeRuntime h (accessor_of h w) (model evt) = Inr None"
  shows "arbitrate h evt parts w = (Inr None, snd (getSessionRuntime (sessionID evt) w))"
proof -
  obtain runtime w0 where g: "getSessionRuntime (sessionID evt) w = (runtime, w0)"
    by (cases "getSessionRuntime (sessionID evt) w")
  have "loader_called w0 = loader_called w"
    using getSessionRuntime_world(4) [of "sessionID evt" w] g by simp
  then have "accessor_of h w0 = accessor_of h w"
    by (simp add: accessor_of_def)
  then show ?thesis
    using assms by (simp add: arbitrate_def g Let_def)
qed

text \<open>
  C10. When the resolution of the judge runtime yields no runtime, the chat-message hook
  resolves without an error and leaves the message parts, the queues of every session,
  the tracker and the record of host calls and requests as they were; the tool
  \<^verbatim>\<open>open_machina_decide\<close>, given an input object, raises an error whose message contains
  \<^verbatim>\<open>AUTONOMY_JUDGE_UNAVAILABLE\<close>.
\<close>

theorem no_runtime_hook_silent_tool_raises:
  "(resolveJudgeRuntime h (accessor_of h w) (model evt) = Inr None \<longrightarrow>
      fst (chat_message h evt parts w) = Inr ()
    \<and> fst (snd (chat_message h evt parts w)) = parts
    \<and> (\<forall>s. fst (getSessionRuntime s (snd (snd (chat_message h evt parts w))))
             = fst (getSessionRuntime s w))
    \<and> heap (snd (snd (chat_message h evt parts w))) = heap w
    \<and> sessions (snd (snd (chat_message h evt parts w))) = sessions w
    \<and> host_calls (snd (snd (chat_message h evt parts w))) = host_calls w
    \<and> fetched (snd (snd (chat_message h evt parts w))) = fetched w)
   \<and> (isRecord (get_prop args ''input'')
       \<and> resolveJudgeRuntime h (accessor_of h w) (parseModelRef (get_prop args ''model'')) = Inr None \<longrightarrow>
      (\<exists>msg. open_machina_decide h args w = (Inl (Error msg), w)
            \<and> includes_text msg ''AUTONOMY_JUDGE_UNAVAILABLE''))"
proof (intro conjI impI)
  assume none: "resolveJudgeRuntime h (accessor_of h w) (model evt) = Inr None"
  have hook: "chat_message h evt parts w = (Inr (), parts, snd (getSessionRuntime (sessionID evt) w))"
    by (simp add: chat_message_def arbitrate_no_runtime [OF none])
  show "fst (chat_message h evt parts w) = Inr ()"
    and "fst (snd (chat_message h evt parts w)) = parts"
    and "\<forall>s. fst (getSessionRuntime s (snd (snd (chat_message h evt parts w))))
             = fst (getSessionRuntime s w)"
    and "heap (snd (snd (chat_message h evt parts w))) = heap w"
    and "sessions (snd (snd (chat_message h evt parts w))) = sessions w"
    and "host_calls (snd (snd (chat_message h evt parts w))) = host_calls w"
    and "fetched (snd (snd (chat_message h evt parts w))) = fetched w"
    by (simp_all add: hook getSessionRuntime_view getSessionRuntime_world getSessionRuntime_fetched)
next
  assume tool: "isRecord (get_prop args ''input'')
       \<and> resolveJudgeRuntime h (accessor_of h w) (parseModelRef (get_prop args ''model'')) = Inr None"
  let ?msg = "''AUTONOMY_JUDGE_UNAVAILABLE: run `opencode auth login` for provider open-machina-judge (or set MACHINA_JUDGE_AUTH_PROVIDER) and configure MACHINA_JUDGE_MODEL''"
  have raised: "open_machina_decide h args w = (Inl (Error ?msg), w)"
    using tool by (simp add: open_machina_decide_def Let_def)
  have "includes_text ?msg ''AUTONOMY_JUDGE_UNAVAILABLE''"
    by (simp add: includes_text.simps)
  with raised show "\<exists>msg. open_machina_decide h args w = (Inl (Error msg), w)
            \<and> includes_text msg ''AUTONOMY_JUDGE_UNAVAILABLE''"
    by blast
qed

lemma unconfigured_runtime:
  "resolveJudgeRuntime ((example_host a b c answer)\<lparr>env := (\<lambda>name. None)\<rparr>) accessor hint = Inr None"
  by (simp add: resolveJudgeRuntime_def readJudgeConfig_def env_trim_def)

theorem no_runtime_hook_silent_tool_raises_witness:
  "fst (chat_message ((example_host True False False abort_json)\<lparr>env := (\<lambda>name. None)\<rparr>)
          example_event example_parts (example_world ''workflow.run'')) = Inr ()
   \<and> fst (snd (chat_message ((example_host True False False abort_json)\<lparr>env := (\<lambda>name. None)\<rparr>)
          example_event example_parts (example_world ''workflow.run''))) = example_parts
   \<and> host_calls (snd (snd (chat_message ((example_host True False False abort_json)\<lparr>env := (\<lambda>name. None)\<rparr>)
          example_event example_parts (example_world ''workflow.run'')))) = []
   \<and> (\<exists>msg. open_machina_decide ((example_host True False False abort_json)\<lparr>env := (\<lambda>name. None)\<rparr>)
               (JObj [(''input'', JObj [])]) (example_world ''workflow.run'')
             = (Inl (Error msg), example_world ''workflow.run'')
           \<and> includes_text msg ''AUTONOMY_JUDGE_UNAVAILABLE'')"
proof -
  let ?h = "(example_host True False False abort_json)\<lparr>env := (\<lambda>name. None)\<rparr>"
  let ?w = "example_world ''workflow.run''"
  note t = no_runtime_hook_silent_tool_raises
             [of ?h ?w example_event example_parts "JObj [(''input'', JObj [])]"]
  have hook: "resolveJudgeRuntime ?h (accessor_of ?h ?w) (model example_event) = Inr None"
    by (rule unconfigured_runtime)
  have tool: "isRecord (get_prop (JObj [(''input'', JObj [])]) ''input'')
       \<and> resolveJudgeRuntime ?h (accessor_of ?h ?w)
           (parseModelRef (get_prop (JObj [(''input'', JObj [])]) ''model'')) = Inr None"
    by (simp add: unconfigured_runtime)
  have calls: "host_calls ?w = []"
    by (simp add: example_world_eq)
  show ?thesis
    using t [THEN conjunct1, rule_format, OF hook] t [THEN conjunct2, rule_format, OF tool] calls
    by simp
qed

section \<open>References of the tracker stay valid\<close>

lemma tracker_valid_initial: "tracker_valid initial_world"
  by (simp add: tracker_valid_def initial_world_def session_work_def)

lemma tracker_valid_grows:
  assumes "tracker_valid w" and "heap w' = heap w @ xs" and "sessions w' = sessions w"
  shows "tracker_valid w'"
  unfolding tracker_valid_def
proof (intro allI ballI)
  fix s r
  assume "r \<in> set (session_work w' s)"
  then have "r \<in> set (session_work w s)"
    using assms(3) by (simp add: session_work_def)
  then have "r < length (heap w)"
    using assms(1) unfolding tracker_valid_def by blast
  then show "r < length (heap w')"
    by (simp add: assms(2))
qed

lemma tracker_valid_before:
  assumes "tracker_valid w"
  shows "tracker_valid (tool_execute_before h evt w)"
proof -
  have "r < Suc (length (heap w))"
    if "r \<in> set (take 16 (length (heap w) # session_work w (evt_sessionID evt)))" for r
    using that assms by (auto simp add: tracker_valid_def take_Cons' less_Suc_eq dest!: in_set_takeD split: if_splits)
  moreover have "r < Suc (length (heap w))" if "r \<in> set (session_work w s)" for r s
    using that assms by (auto simp add: tracker_valid_def less_Suc_eq)
  ultimately show ?thesis
    by (auto simp add: tracker_valid_def tool_execute_before_def read_clock_def alloc_def Let_def
        session_work_def)
qed

lemma queue_matching_grows:
  "\<exists>xs. heap (snd (queue_matching key rs w)) = heap w @ xs
      \<and> sessions (snd (queue_matching key rs w)) = sessions w"
proof (induction rs arbitrary: w)
  case Nil
  show ?case by simp
next
  case (Cons r rs)
  show ?case
  proof (cases "item_id (heap w ! r) = key")
    case True
    obtain xs where "heap (snd (queue_matching key rs (snd (alloc ((heap w ! r)\<lparr>status := Queued\<rparr>) w))))
        = heap (snd (alloc ((heap w ! r)\<lparr>status := Queued\<rparr>) w)) @ xs"
      and "sessions (snd (queue_matching key rs (snd (alloc ((heap w ! r)\<lparr>status := Queued\<rparr>) w))))
        = sessions (snd (alloc ((heap w ! r)\<lparr>status := Queued\<rparr>) w))"
      using Cons.IH by blast
    then show ?thesis
      using True by (simp add: alloc_def split_beta)
  next
    case False
    then show ?thesis
      using Cons.IH [of w] by (simp add: split_beta)
  qed
qed

lemma queue_matching_refs:
  assumes "\<forall>r \<in> set rs. r < length (heap w)"
  shows "\<forall>r \<in> set (fst (queue_matching key rs w)). r < length (heap (snd (queue_matching key rs w)))"
  using assms
proof (induction rs arbitrary: w)
  case Nil
  show ?case by simp
next
  case (Cons r rs)
  show ?case
  proof (cases "item_id (heap w ! r) = key")
    case True
    let ?w1 = "snd (alloc ((heap w ! r)\<lparr>status := Queued\<rparr>) w)"
    have len: "length (heap ?w1) = Suc (length (heap w))"
      by (simp add: alloc_def)
    have "\<forall>r \<in> set rs. r < length (heap ?w1)"
      using Cons.prems len by (simp add: less_Suc_eq)
    then have rest: "\<forall>r \<in> set (fst (queue_matching key rs ?w1)).
        r < length (heap (snd (queue_matching key rs ?w1)))"
      by (rule Cons.IH)
    obtain xs where "heap (snd (queue_matching key rs ?w1)) = heap ?w1 @ xs"
      using queue_matching_grows [of key rs ?w1] by blast
    then have "length (heap w) < length (heap (snd (queue_matching key rs ?w1)))"
      using len by simp
    then show ?thesis
      using True rest by (simp add: alloc_def split_beta)
  next
    case False
    have rest: "\<forall>r \<in> set (fst (queue_matching key rs w)).
        r < length (heap (snd (queue_matching key rs w)))"
      using Cons.prems by (intro Cons.IH) simp
    obtain xs where "heap (snd (queue_matching key rs w)) = heap w @ xs"
      using queue_matching_grows [of key rs w] by blast
    then have "r < length (heap (snd (queue_matching key rs w)))"
      using Cons.prems by simp
    then show ?thesis
      using False rest by (simp add: split_beta)
  qed
qed

lemma tracker_valid_after:
  assumes "tracker_valid w"
  shows "tracker_valid (tool_execute_after evt w)"
proof -
  let ?key = "evt_tool evt @ '':'' @ evt_callID evt"
  let ?work = "session_work w (evt_sessionID evt)"
  let ?w1 = "snd (queue_matching ?key ?work w)"
  obtain xs where grows: "heap ?w1 = heap w @ xs" and same: "sessions ?w1 = sessions w"
    using queue_matching_grows [of ?key ?work w] by blast
  have new: "\<forall>r \<in> set (fst (queue_matching ?key ?work w)). r < length (heap ?w1)"
    using assms by (intro queue_matching_refs) (simp add: tracker_valid_def)
  have old: "r < length (heap ?w1)" if "r \<in> set (session_work w s)" for r s
  proof -
    have "r < length (heap w)"
      using that assms unfolding tracker_valid_def by blast
    then show ?thesis unfolding grows by simp
  qed
  show ?thesis
    using new old same
    by (auto simp add: tracker_valid_def tool_execute_after_def Let_def split_beta session_work_def
        split: option.splits)
qed

lemma apply_arbitration_grows:
  "\<exists>xs. heap (snd (snd (apply_arbitration h evt a parts w))) = heap w @ xs
      \<and> sessions (snd (snd (apply_arbitration h evt a parts w))) = sessions w"
proof (cases "action (arb_decision a)")
  case Abort
  then show ?thesis
    by (cases "abortSession h (sessionID evt) (host_calls w)")
       (simp add: apply_arbitration_def Let_def set_runtime_def split: option.splits sum.splits)
next
  case Defer
  then show ?thesis
    by (cases "arb_active a")
       (simp_all add: apply_arbitration_def Let_def set_runtime_def applyDefer_def alloc_def
          split: option.splits)
next
  case Parallel
  then show ?thesis
    by (simp add: apply_arbitration_def Let_def set_runtime_def applyParallel_def alloc_def
        read_clock_def split: option.splits)
next
  case Continue
  then show ?thesis
    by (simp add: apply_arbitration_def Let_def split: option.splits)
qed

lemma tracker_valid_chat_message:
  assumes "tracker_valid w"
  shows "tracker_valid (snd (snd (chat_message h evt parts w)))"
proof -
  obtain r w1 where arb: "arbitrate h evt parts w = (r, w1)"
    by (cases "arbitrate h evt parts w")
  have w1: "heap w1 = heap w" "sessions w1 = sessions w"
    using arbitrate_plugin_state(1,2) [of h evt parts w] arb by simp_all
  have "\<exists>xs. heap (snd (snd (chat_message h evt parts w))) = heap w @ xs
      \<and> sessions (snd (snd (chat_message h evt parts w))) = sessions w"
  proof (cases r)
    case (Inl e)
    then show ?thesis by (simp add: chat_message_def arb w1)
  next
    case (Inr x)
    show ?thesis
    proof (cases x)
      case None
      then show ?thesis using Inr by (simp add: chat_message_def arb w1)
    next
      case (Some a)
      then show ?thesis
        using Inr apply_arbitration_grows [of h evt a parts w1]
        by (simp add: chat_message_def arb w1 split_beta)
    qed
  qed
  then obtain xs where "heap (snd (snd (chat_message h evt parts w))) = heap w @ xs"
    and "sessions (snd (snd (chat_message h evt parts w))) = sessions w"
    by blast
  then show ?thesis
    using assms by (rule tracker_valid_grows [rotated])
qed

section \<open>Selection of the judge model\<close>

lemma fallback_trims:
  "trim ''gpt-primary'' = ''gpt-primary''" "trim ''gpt-fallback'' = ''gpt-fallback''"
  "trim ''openai/gpt-primary'' = ''openai/gpt-primary''"
  "trim ''openai/gpt-fallback'' = ''openai/gpt-fallback''"
  by (simp_all add: trim_def is_space_def)

lemma fallback_policy:
  "readJudgePolicy fallback_env =
     \<lparr>allow = [], deny = [\<lparr>providerID = ''openai'', modelID = ''gpt-primary''\<rparr>],
      fallback = [\<lparr>providerID = ''openai'', modelID = ''gpt-fallback''\<rparr>]\<rparr>"
  by (simp add: readJudgePolicy_def fallback_env_def parseModelRefList_def List.map_filter_simps
      fallback_trims example_trims Let_def)

lemma fallback_config:
  "readJudgeConfig fallback_env =
     Some \<lparr>cfg_providerID = ''openai'',
            cfg_apiUrl = Some ''https://judge.example.test/v1/chat/completions'',
            cfg_modelID = ''gpt-primary'', cfg_authProviderID = ''open-machina-judge''\<rparr>"
  by (simp add: readJudgeConfig_def fallback_env_def env_trim_def or_text_def example_trims
      fallback_trims)

lemma fallback_validate:
  "validateJudgeTarget fallback_host ''openai'' ''gpt-fallback'' = None"
  by (simp add: validateJudgeTarget_def fallback_host_def example_host_def unwrapClientData_def)

lemma fallback_token:
  "resolveJudgeToken fallback_host None ''open-machina-judge'' ''openai'' = Inr (Some ''token'')"
  by (simp add: resolveJudgeToken_def call_accessor_def fallback_host_def example_host_def fallback_env_def
      env_trim_def or_text_def or_option_def pickAuthToken_def pickAuthTokenFromStore_def
      trimmed_text_def example_trims truthy_text_def)

lemma fallback_runtime:
  "resolveJudgeRuntime fallback_host None None =
     Inr (Some \<lparr>rt_providerID = ''openai'', rt_modelID = ''gpt-fallback'',
                 rt_apiUrl = ''https://judge.example.test/v1/chat/completions'',
                 rt_token = ''token''\<rparr>)"
proof -
  have e: "env fallback_host = fallback_env" "list_call_throws fallback_host = None"
    by (simp_all add: fallback_host_def list_call_throws_def example_host_def)
  show ?thesis
    by (simp add: resolveJudgeRuntime_def e fallback_config fallback_policy or_text_def
        select_candidate_def dedupeModelRefs_def ref_key_def isPolicyAllowed_def
        fallback_validate truthy_text_def fallback_token)
qed

text \<open>
  C2. The candidates of a resolution are the base reference followed by the policy's
  fallbacks, each kept at its first occurrence by identity key; the candidate loop
  returns the first of them, in that order, that the policy allows and the catalog check
  does not reject, skipping every earlier one; and a runtime returned by
  \<^verbatim>\<open>resolveJudgeRuntime\<close> names that candidate, for the base reference taken from the
  model hint or else from the configuration.
\<close>

theorem select_candidate_first_allowed_valid:
  "dedupeModelRefs (base # fallback policy) = first_seen (base # fallback policy)
   \<and> fst (select_candidate policy validate base)
       = find (\<lambda>c. isPolicyAllowed policy c \<and> \<not> truthy_text (validate c))
           (first_seen (base # fallback policy))
   \<and> (resolveJudgeRuntime h accessor modelHint = Inr (Some rt) \<longrightarrow>
        (\<exists>config resolved.
            readJudgeConfig (env h) = Some config
          \<and> resolved = \<lparr>providerID = or_text (map_option (\<lambda>m. trim (providerID m)) modelHint)
                                               (cfg_providerID config),
                         modelID = or_text (map_option (\<lambda>m. trim (modelID m)) modelHint)
                                            (cfg_modelID config)\<rparr>
          \<and> find (\<lambda>c. isPolicyAllowed (readJudgePolicy (env h)) c
                      \<and> \<not> truthy_text (validateJudgeTarget h (providerID c) (modelID c)))
               (first_seen (resolved # fallback (readJudgePolicy (env h))))
              = Some \<lparr>providerID = rt_providerID rt, modelID = rt_modelID rt\<rparr>))"
proof -
  have same: "dedupeModelRefs (base # fallback policy) = first_seen (base # fallback policy)"
    unfolding dedupeModelRefs_def
    using dedupe_loop_first_seen [of "{}" "[]" "base # fallback policy"] by simp
  have loop: "fst (select_candidate policy validate base)
       = find (\<lambda>c. isPolicyAllowed policy c \<and> \<not> truthy_text (validate c))
           (first_seen (base # fallback policy))"
    using same select_loop_find by (simp add: select_candidate_def)
  show ?thesis
    using same loop resolveJudgeRuntime_selected [of h accessor modelHint rt] by blast
qed

theorem select_candidate_first_allowed_valid_witness:
  "resolveJudgeRuntime fallback_host None None =
     Inr (Some \<lparr>rt_providerID = ''openai'', rt_modelID = ''gpt-fallback'',
                 rt_apiUrl = ''https://judge.example.test/v1/chat/completions'',
                 rt_token = ''token''\<rparr>)
   \<and> find (\<lambda>c. isPolicyAllowed (readJudgePolicy (env fallback_host)) c
               \<and> \<not> truthy_text (validateJudgeTarget fallback_host (providerID c) (modelID c)))
        (first_seen (\<lparr>providerID = ''openai'', modelID = ''gpt-primary''\<rparr>
                       # fallback (readJudgePolicy (env fallback_host))))
       = Some \<lparr>providerID = ''openai'', modelID = ''gpt-fallback''\<rparr>"
proof -
  note t = select_candidate_first_allowed_valid
             [of undefined undefined undefined fallback_host None None
                 "\<lparr>rt_providerID = ''openai'', rt_modelID = ''gpt-fallback'',
                   rt_apiUrl = ''https://judge.example.test/v1/chat/completions'',
                   rt_token = ''token''\<rparr>",
              THEN conjunct2, THEN conjunct2, rule_format, OF fallback_runtime]
  have e: "env fallback_host = fallback_env"
    by (simp add: fallback_host_def)
  from t obtain config resolved
    where config: "readJudgeConfig (env fallback_host) = Some config"
      and resolved: "resolved = \<lparr>providerID = or_text (map_option (\<lambda>m. trim (providerID m)) None)
                                               (cfg_providerID config),
                         modelID = or_text (map_option (\<lambda>m. trim (modelID m)) None)
                                            (cfg_modelID config)\<rparr>"
      and found: "find (\<lambda>c. isPolicyAllowed (readJudgePolicy (env fallback_host)) c
               \<and> \<not> truthy_text (validateJudgeTarget fallback_host (providerID c) (modelID c)))
        (first_seen (resolved # fallback (readJudgePolicy (env fallback_host))))
       = Some \<lparr>providerID = ''openai'', modelID = ''gpt-fallback''\<rparr>"
    by auto
  have "config = \<lparr>cfg_providerID = ''openai'',
            cfg_apiUrl = Some ''https://judge.example.test/v1/chat/completions'',
            cfg_modelID = ''gpt-primary'', cfg_authProviderID = ''open-machina-judge''\<rparr>"
    using config by (simp add: e fallback_config)
  then have base: "resolved = \<lparr>providerID = ''openai'', modelID = ''gpt-primary''\<rparr>"
    using resolved by (simp add: or_text_def)
  show ?thesis
    using found fallback_runtime unfolding base by (intro conjI)
qed

end
